theory Spec2Isabelle
  imports Main
begin

section \<open>Values that cross the HTTP boundary\<close>

text \<open>
  The server (\<^verbatim>\<open>src/server.js\<close>) is an Express application over a Prisma client.
  Every handler in scope runs behind \<^verbatim>\<open>authenticateToken\<close>, which puts the user
  identifier of a verified token in \<^verbatim>\<open>req.userId\<close>; the handlers below take that
  identifier as an argument. Users are not part of the model: no handler deletes a user,
  and the user of a verified token is taken to exist. The handlers are modelled one request
  at a time: a handler takes the store, and returns its response with the store it leaves
  behind.

  A JavaScript number produced by \<^verbatim>\<open>parseInt\<close> is an integer or \<^verbatim>\<open>NaN\<close>; it is modelled as
  \<open>int option\<close>, \<open>None\<close> standing for \<^verbatim>\<open>NaN\<close>.
\<close>

type_synonym number = "int option"

subsection \<open>parseInt\<close>

text \<open>
  \<^verbatim>\<open>parseInt(string)\<close> without a radix: leading white space is dropped, then an optional
  sign, then an optional \<^verbatim>\<open>0x\<close>/\<^verbatim>\<open>0X\<close> prefix (which selects radix 16), then the longest
  run of digits of the radix; the rest of the string is ignored, and an empty run of digits
  gives \<^verbatim>\<open>NaN\<close>. Strings are byte strings in UTF-8, so the white space characters beyond
  ASCII are recognised by their encodings. The value is kept as a mathematical integer; the
  rounding that JavaScript applies beyond \<open>2 ^ 53\<close> only concerns values that the store
  refuses anyway (see \<open>prismaInt\<close>).
\<close>

definition ascii_ws :: "nat \<Rightarrow> bool" where
  "ascii_ws n = (n = 9 \<or> n = 10 \<or> n = 11 \<or> n = 12 \<or> n = 13 \<or> n = 32)"

text \<open>The number of bytes of the white space character that starts the string, 0 if none does.\<close>

fun ws_len :: "nat list \<Rightarrow> nat" where
  "ws_len [] = 0"
| "ws_len [a] = (if ascii_ws a then 1 else 0)"
| "ws_len [a, b] = (if ascii_ws a then 1 else if a = 194 \<and> b = 160 then 2 else 0)"
| "ws_len (a # b # c # _) =
     (if ascii_ws a then 1
      else if a = 194 \<and> b = 160 then 2
      else if a = 225 \<and> b = 154 \<and> c = 128 then 3
      else if a = 226 \<and> b = 128 \<and> (128 \<le> c \<and> c \<le> 138 \<or> c = 168 \<or> c = 169 \<or> c = 175) then 3
      else if a = 226 \<and> b = 129 \<and> c = 159 then 3
      else if a = 227 \<and> b = 128 \<and> c = 128 then 3
      else if a = 239 \<and> b = 187 \<and> c = 191 then 3
      else 0)"

fun trimStart :: "nat \<Rightarrow> nat list \<Rightarrow> nat list" where
  "trimStart 0 s = s"
| "trimStart (Suc fuel) s =
     (if ws_len s = 0 then s else trimStart fuel (drop (ws_len s) s))"

definition digitValue :: "nat \<Rightarrow> nat option" where
  "digitValue n =
     (if 48 \<le> n \<and> n \<le> 57 then Some (n - 48)
      else if 97 \<le> n \<and> n \<le> 122 then Some (n - 87)
      else if 65 \<le> n \<and> n \<le> 90 then Some (n - 55)
      else None)"

text \<open>The digits of radix \<open>R\<close> at the start of the string, most significant first.\<close>

fun radixDigits :: "nat \<Rightarrow> nat list \<Rightarrow> nat list" where
  "radixDigits R [] = []"
| "radixDigits R (c # cs) =
     (case digitValue c of
        None \<Rightarrow> []
      | Some d \<Rightarrow> if d < R then d # radixDigits R cs else [])"

definition parseInt :: "string \<Rightarrow> number" where
  "parseInt inputString =
     (let bytes = map of_char inputString;
          s = trimStart (length bytes) bytes;
          negative = (take 1 s = [45]);
          s1 = (if take 1 s = [45] \<or> take 1 s = [43] then drop 1 s else s);
          hex = (take 2 s1 = [48, 120] \<or> take 2 s1 = [48, 88]);
          R = (if hex then 16 else 10);
          s2 = (if hex then drop 2 s1 else s1);
          Z = radixDigits R s2;
          mathInt = foldl (\<lambda>acc d. acc * int R + int d) 0 Z
      in if Z = [] then None
         else Some (if negative then - mathInt else mathInt))"

section \<open>The store\<close>

text \<open>
  The tables the handlers touch, with the columns they read or write. The
  \<^verbatim>\<open>createdAt\<close>/\<^verbatim>\<open>updatedAt\<close> columns are filled by the store and are never read by a handler
  in scope; they are left out. Rows are kept in insertion order. The \<^verbatim>\<open>Session\<close> and
  \<^verbatim>\<open>SessionAttendee\<close> tables follow
  \<^verbatim>\<open>src/prisma/migrations/20251119140603_add_sessions/migration.sql\<close>: \<^verbatim>\<open>SERIAL\<close>
  primary keys, \<^verbatim>\<open>INTEGER\<close> columns, the unique index
  \<^verbatim>\<open>SessionAttendee_sessionId_userId_key\<close> and the foreign key of
  \<^verbatim>\<open>SessionAttendee.sessionId\<close> into \<^verbatim>\<open>Session\<close>.
\<close>

record session =
  s_id :: int
  s_title :: string
  s_date :: int
  s_time :: string
  s_maxAttendees :: int
  s_userId :: int

record attendee =
  a_id :: int
  a_sessionId :: int
  a_userId :: int

record artwork =
  w_id :: int
  w_userId :: int

record like =
  l_id :: int
  l_userId :: int
  l_artworkId :: int

record comment =
  c_id :: int
  c_content :: string
  c_userId :: int
  c_artworkId :: int

text \<open>
  The three sequences are those behind the \<^verbatim>\<open>SERIAL\<close> keys of the tables the handlers
  insert into: each holds the next value it will hand out, and is taken never to run out.
\<close>

record db =
  sessions :: "session list"
  attendees :: "attendee list"
  artworks :: "artwork list"
  likes :: "like list"
  comments :: "comment list"
  sessionSeq :: int
  attendeeSeq :: int
  likeSeq :: int

definition emptyDb :: db where
  "emptyDb = \<lparr>sessions = [], attendees = [], artworks = [], likes = [], comments = [],
              sessionSeq = 1, attendeeSeq = 1, likeSeq = 1\<rparr>"

text \<open>What a rejected promise or a failing expression throws inside a handler's \<^verbatim>\<open>try\<close>.\<close>

datatype exn =
    PrismaValidation
  | PrismaUnique
  | PrismaForeignKey
  | PrismaNotFound
  | TypeError

subsection \<open>Prisma calls\<close>

definition int4 :: "int \<Rightarrow> bool" where
  "int4 n = (- 2147483648 \<le> n \<and> n \<le> 2147483647)"

text \<open>
  A number handed to Prisma for an \<^verbatim>\<open>Int\<close> field: \<^verbatim>\<open>NaN\<close> and values that do not fit
  the 32-bit \<^verbatim>\<open>INTEGER\<close> column are refused before any row is read or written.
\<close>

definition prismaInt :: "number \<Rightarrow> exn + int" where
  "prismaInt v =
     (case v of
        None \<Rightarrow> Inl PrismaValidation
      | Some n \<Rightarrow> if int4 n then Inr n else Inl PrismaValidation)"

text \<open>\<^verbatim>\<open>prisma.session.findUnique({ where: { id } })\<close>: the row or \<^verbatim>\<open>null\<close>.\<close>

definition session_findUnique :: "db \<Rightarrow> number \<Rightarrow> exn + session option" where
  "session_findUnique d sessionId =
     (case prismaInt sessionId of
        Inl e \<Rightarrow> Inl e
      | Inr n \<Rightarrow> Inr (find (\<lambda>s. s_id s = n) (sessions d)))"

text \<open>The relation \<^verbatim>\<open>attendees\<close> of a session, as \<^verbatim>\<open>include: { attendees: ... }\<close> loads it.\<close>

definition attendeesOf :: "db \<Rightarrow> int \<Rightarrow> attendee list" where
  "attendeesOf d sessionId = filter (\<lambda>a. a_sessionId a = sessionId) (attendees d)"

text \<open>
  The insert of one \<^verbatim>\<open>SessionAttendee\<close> row. The key is drawn from the sequence first, so
  the sequence has advanced even when the unique index or the foreign key then refuses
  the row.
\<close>

definition attendee_insert :: "db \<Rightarrow> int \<Rightarrow> int \<Rightarrow> (exn + attendee) \<times> db" where
  "attendee_insert d sessionId userId =
     (let d1 = d\<lparr>attendeeSeq := attendeeSeq d + 1\<rparr>;
          row = \<lparr>a_id = attendeeSeq d, a_sessionId = sessionId, a_userId = userId\<rparr>
      in if list_ex (\<lambda>a. a_sessionId a = sessionId \<and> a_userId a = userId) (attendees d)
         then (Inl PrismaUnique, d1)
         else if \<not> list_ex (\<lambda>s. s_id s = sessionId) (sessions d)
         then (Inl PrismaForeignKey, d1)
         else (Inr row, d1\<lparr>attendees := attendees d @ [row]\<rparr>))"

text \<open>\<^verbatim>\<open>prisma.sessionAttendee.create({ data: { sessionId, userId } })\<close>.\<close>

definition sessionAttendee_create :: "db \<Rightarrow> number \<Rightarrow> int \<Rightarrow> (exn + attendee) \<times> db" where
  "sessionAttendee_create d sessionId userId =
     (case prismaInt sessionId of
        Inl e \<Rightarrow> (Inl e, d)
      | Inr n \<Rightarrow> attendee_insert d n userId)"

text \<open>
  A string handed to Prisma for a \<^verbatim>\<open>TEXT\<close> column. Strings are byte strings in UTF-8: the
  column takes the well-formed encodings that hold no NUL character, and nothing else
  (a lone surrogate of the JavaScript string has no encoding). \<open>utf8_len\<close> is the number
  of bytes of the character that starts the string, 0 if none does.
\<close>

definition utf8_cont :: "nat \<Rightarrow> bool" where
  "utf8_cont b = (128 \<le> b \<and> b \<le> 191)"

fun utf8_len :: "nat list \<Rightarrow> nat" where
  "utf8_len [] = 0"
| "utf8_len [a] = (if 1 \<le> a \<and> a \<le> 127 then 1 else 0)"
| "utf8_len [a, b] =
     (if 1 \<le> a \<and> a \<le> 127 then 1
      else if 194 \<le> a \<and> a \<le> 223 \<and> utf8_cont b then 2
      else 0)"
| "utf8_len [a, b, c] =
     (if 1 \<le> a \<and> a \<le> 127 then 1
      else if 194 \<le> a \<and> a \<le> 223 \<and> utf8_cont b then 2
      else if a = 224 \<and> 160 \<le> b \<and> b \<le> 191 \<and> utf8_cont c then 3
      else if 225 \<le> a \<and> a \<le> 236 \<and> utf8_cont b \<and> utf8_cont c then 3
      else if a = 237 \<and> 128 \<le> b \<and> b \<le> 159 \<and> utf8_cont c then 3
      else if 238 \<le> a \<and> a \<le> 239 \<and> utf8_cont b \<and> utf8_cont c then 3
      else 0)"
| "utf8_len (a # b # c # e # _) =
     (if 1 \<le> a \<and> a \<le> 127 then 1
      else if 194 \<le> a \<and> a \<le> 223 \<and> utf8_cont b then 2
      else if a = 224 \<and> 160 \<le> b \<and> b \<le> 191 \<and> utf8_cont c then 3
      else if 225 \<le> a \<and> a \<le> 236 \<and> utf8_cont b \<and> utf8_cont c then 3
      else if a = 237 \<and> 128 \<le> b \<and> b \<le> 159 \<and> utf8_cont c then 3
      else if 238 \<le> a \<and> a \<le> 239 \<and> utf8_cont b \<and> utf8_cont c then 3
      else if a = 240 \<and> 144 \<le> b \<and> b \<le> 191 \<and> utf8_cont c \<and> utf8_cont e then 4
      else if 241 \<le> a \<and> a \<le> 243 \<and> utf8_cont b \<and> utf8_cont c \<and> utf8_cont e then 4
      else if a = 244 \<and> 128 \<le> b \<and> b \<le> 143 \<and> utf8_cont c \<and> utf8_cont e then 4
      else 0)"

fun utf8_text :: "nat \<Rightarrow> nat list \<Rightarrow> bool" where
  "utf8_text 0 s = (s = [])"
| "utf8_text (Suc fuel) s =
     (if s = [] then True
      else if utf8_len s = 0 then False
      else utf8_text fuel (drop (utf8_len s) s))"

definition prismaText :: "string option \<Rightarrow> exn + string" where
  "prismaText v =
     (case v of
        None \<Rightarrow> Inl PrismaValidation
      | Some t \<Rightarrow>
          if utf8_text (length t) (map of_char t) then Inr t else Inl PrismaValidation)"

text \<open>
  A \<^verbatim>\<open>Date\<close> handed to Prisma for a \<^verbatim>\<open>TIMESTAMP(3)\<close> column, as its epoch value in
  milliseconds, \<open>None\<close> for an invalid date. Prisma sends the date in the ISO format with a
  year of four digits: the dates from \<^verbatim>\<open>0000-01-01T00:00:00.000Z\<close> to
  \<^verbatim>\<open>9999-12-31T23:59:59.999Z\<close> are taken, the others and the invalid date are refused.
\<close>

definition prismaDate :: "int option \<Rightarrow> exn + int" where
  "prismaDate v =
     (case v of
        None \<Rightarrow> Inl PrismaValidation
      | Some ms \<Rightarrow>
          if - 62167219200000 \<le> ms \<and> ms \<le> 253402300799999 then Inr ms
          else Inl PrismaValidation)"

text \<open>
  \<^verbatim>\<open>prisma.session.create\<close> with the nested \<^verbatim>\<open>attendees: { create: [{ userId }] }\<close>: one
  transaction that inserts the session and the attendee row of its creator, or nothing.
  A missing, ill-typed or refused field makes the call throw before a row is written. The
  fields arrive as the handler computes them: \<open>title\<close> and \<open>time\<close> are \<open>None\<close> when the body
  holds no string there, \<open>date\<close> is the epoch value of \<^verbatim>\<open>new Date(date)\<close> and \<open>None\<close> for
  an invalid date.
\<close>

definition session_create ::
  "db \<Rightarrow> string option \<Rightarrow> int option \<Rightarrow> string option \<Rightarrow> number \<Rightarrow> int
     \<Rightarrow> (exn + session) \<times> db" where
  "session_create d title date time maxAttendees userId =
     (case (prismaText title, prismaDate date, prismaText time, prismaInt maxAttendees) of
        (Inr t, Inr dt, Inr tm, Inr n) \<Rightarrow>
          (let row = \<lparr>s_id = sessionSeq d, s_title = t, s_date = dt, s_time = tm,
                      s_maxAttendees = n, s_userId = userId\<rparr>;
               d1 = d\<lparr>sessionSeq := sessionSeq d + 1\<rparr>;
               d2 = d1\<lparr>sessions := sessions d @ [row]\<rparr>
           in case attendee_insert d2 (s_id row) userId of
                (Inl e, d3) \<Rightarrow>
                  (Inl e, d\<lparr>sessionSeq := sessionSeq d3, attendeeSeq := attendeeSeq d3\<rparr>)
              | (Inr a, d3) \<Rightarrow> (Inr row, d3))
      | _ \<Rightarrow> (Inl PrismaValidation, d))"

text \<open>\<^verbatim>\<open>prisma.sessionAttendee.deleteMany({ where: { sessionId, userId } })\<close>.\<close>

definition sessionAttendee_deleteMany_pair :: "db \<Rightarrow> number \<Rightarrow> int \<Rightarrow> exn + db" where
  "sessionAttendee_deleteMany_pair d sessionId userId =
     (case prismaInt sessionId of
        Inl e \<Rightarrow> Inl e
      | Inr n \<Rightarrow>
          Inr (d\<lparr>attendees :=
                 filter (\<lambda>a. \<not> (a_sessionId a = n \<and> a_userId a = userId)) (attendees d)\<rparr>))"

text \<open>\<^verbatim>\<open>prisma.sessionAttendee.deleteMany({ where: { sessionId } })\<close>.\<close>

definition sessionAttendee_deleteMany :: "db \<Rightarrow> number \<Rightarrow> exn + db" where
  "sessionAttendee_deleteMany d sessionId =
     (case prismaInt sessionId of
        Inl e \<Rightarrow> Inl e
      | Inr n \<Rightarrow> Inr (d\<lparr>attendees := filter (\<lambda>a. a_sessionId a \<noteq> n) (attendees d)\<rparr>))"

text \<open>
  \<^verbatim>\<open>prisma.session.delete({ where: { id } })\<close>: throws when no row has the key; the
  foreign key of the attendee rows is \<^verbatim>\<open>ON DELETE CASCADE\<close>.
\<close>

definition session_delete :: "db \<Rightarrow> number \<Rightarrow> exn + db" where
  "session_delete d sessionId =
     (case prismaInt sessionId of
        Inl e \<Rightarrow> Inl e
      | Inr n \<Rightarrow>
          if list_ex (\<lambda>s. s_id s = n) (sessions d)
          then Inr (d\<lparr>sessions := filter (\<lambda>s. s_id s \<noteq> n) (sessions d),
                      attendees := filter (\<lambda>a. a_sessionId a \<noteq> n) (attendees d)\<rparr>)
          else Inl PrismaNotFound)"

text \<open>
  The artwork, like and comment tables are created by earlier migrations. The handlers
  address the like of a user on an artwork through the compound unique key
  \<^verbatim>\<open>userId_artworkId\<close>, so the store holds a unique index on that pair.
\<close>

text \<open>\<^verbatim>\<open>prisma.artwork.findUnique({ where: { id } })\<close>.\<close>

definition artwork_findUnique :: "db \<Rightarrow> number \<Rightarrow> exn + artwork option" where
  "artwork_findUnique d artworkId =
     (case prismaInt artworkId of
        Inl e \<Rightarrow> Inl e
      | Inr n \<Rightarrow> Inr (find (\<lambda>w. w_id w = n) (artworks d)))"

text \<open>\<^verbatim>\<open>prisma.like.findUnique({ where: { userId_artworkId: { userId, artworkId } } })\<close>.\<close>

definition like_findUnique :: "db \<Rightarrow> int \<Rightarrow> number \<Rightarrow> exn + like option" where
  "like_findUnique d userId artworkId =
     (case prismaInt artworkId of
        Inl e \<Rightarrow> Inl e
      | Inr n \<Rightarrow> Inr (find (\<lambda>l. l_userId l = userId \<and> l_artworkId l = n) (likes d)))"

text \<open>\<^verbatim>\<open>prisma.like.delete({ where: { id } })\<close>: throws when no row has the key.\<close>

definition like_delete :: "db \<Rightarrow> int \<Rightarrow> exn + db" where
  "like_delete d likeId =
     (if list_ex (\<lambda>l. l_id l = likeId) (likes d)
      then Inr (d\<lparr>likes := filter (\<lambda>l. l_id l \<noteq> likeId) (likes d)\<rparr>)
      else Inl PrismaNotFound)"

text \<open>
  \<^verbatim>\<open>prisma.like.create({ data: { userId, artworkId } })\<close>. Whether the store holds a
  foreign key from \<^verbatim>\<open>Like.artworkId\<close> into \<^verbatim>\<open>Artwork\<close> is decided by the Prisma schema
  and not by the server, so it is the parameter \<open>fk\<close>. As for attendees, the key is drawn
  before the constraints are checked.
\<close>

definition like_create :: "bool \<Rightarrow> db \<Rightarrow> int \<Rightarrow> number \<Rightarrow> (exn + like) \<times> db" where
  "like_create fk d userId artworkId =
     (case prismaInt artworkId of
        Inl e \<Rightarrow> (Inl e, d)
      | Inr n \<Rightarrow>
          (let d1 = d\<lparr>likeSeq := likeSeq d + 1\<rparr>;
               row = \<lparr>l_id = likeSeq d, l_userId = userId, l_artworkId = n\<rparr>
           in if list_ex (\<lambda>l. l_userId l = userId \<and> l_artworkId l = n) (likes d)
              then (Inl PrismaUnique, d1)
              else if fk \<and> \<not> list_ex (\<lambda>w. w_id w = n) (artworks d)
              then (Inl PrismaForeignKey, d1)
              else (Inr row, d1\<lparr>likes := likes d @ [row]\<rparr>)))"

text \<open>\<^verbatim>\<open>prisma.like.deleteMany({ where: { artworkId } })\<close>.\<close>

definition like_deleteMany :: "db \<Rightarrow> number \<Rightarrow> exn + db" where
  "like_deleteMany d artworkId =
     (case prismaInt artworkId of
        Inl e \<Rightarrow> Inl e
      | Inr n \<Rightarrow> Inr (d\<lparr>likes := filter (\<lambda>l. l_artworkId l \<noteq> n) (likes d)\<rparr>))"

text \<open>\<^verbatim>\<open>prisma.comment.deleteMany({ where: { artworkId } })\<close>.\<close>

definition comment_deleteMany :: "db \<Rightarrow> number \<Rightarrow> exn + db" where
  "comment_deleteMany d artworkId =
     (case prismaInt artworkId of
        Inl e \<Rightarrow> Inl e
      | Inr n \<Rightarrow> Inr (d\<lparr>comments := filter (\<lambda>c. c_artworkId c \<noteq> n) (comments d)\<rparr>))"

text \<open>\<^verbatim>\<open>prisma.artwork.delete({ where: { id } })\<close>: throws when no row has the key.\<close>

definition artwork_delete :: "db \<Rightarrow> number \<Rightarrow> exn + db" where
  "artwork_delete d artworkId =
     (case prismaInt artworkId of
        Inl e \<Rightarrow> Inl e
      | Inr n \<Rightarrow>
          if list_ex (\<lambda>w. w_id w = n) (artworks d)
          then Inr (d\<lparr>artworks := filter (\<lambda>w. w_id w \<noteq> n) (artworks d)\<rparr>)
          else Inl PrismaNotFound)"

section \<open>The handlers\<close>

text \<open>
  A response is its status and its JSON body. The two \<^verbatim>\<open>catch\<close> blocks that append
  \<^verbatim>\<open>error.message\<close> to a fixed prefix keep the prefix and what was thrown. A session is
  sent back with its attendee rows; the names that \<^verbatim>\<open>include: { user: ... }\<close> adds to the
  session and to each attendee come from the user table and are left out.
\<close>

datatype body =
    Error string
  | ErrorWith string exn
  | Message string
  | LikeJson string bool
  | SessionJson session "attendee list"
  | JsonNull

datatype response = Resp (status: nat) (body: body)

text \<open>
  The body of \<^verbatim>\<open>POST /api/sessions\<close> as the handler reads it: \<open>b_maxAttendees\<close> is the
  string that \<^verbatim>\<open>parseInt\<close> sees (it converts its argument to a string first, so the
  number \<open>2\<close> and the string \<^verbatim>\<open>"2"\<close> are the same input, and a missing field is
  \<^verbatim>\<open>"undefined"\<close>).
\<close>

record session_body =
  b_title :: "string option"
  b_date :: "int option"
  b_time :: "string option"
  b_maxAttendees :: string

text \<open>The session with its attendees, as the handlers send it back.\<close>

definition sessionJson :: "db \<Rightarrow> session option \<Rightarrow> body" where
  "sessionJson d r =
     (case r of
        None \<Rightarrow> JsonNull
      | Some s \<Rightarrow> SessionJson s (attendeesOf d (s_id s)))"

text \<open>\<^verbatim>\<open>POST /api/sessions\<close>\<close>

definition createSession :: "db \<Rightarrow> int \<Rightarrow> session_body \<Rightarrow> response \<times> db" where
  "createSession d userId b =
     (case session_create d (b_title b) (b_date b) (b_time b)
             (parseInt (b_maxAttendees b)) userId of
        (Inl e, d') \<Rightarrow> (Resp 500 (ErrorWith ''Failed to create session: '' e), d')
      | (Inr session, d') \<Rightarrow> (Resp 200 (sessionJson d' (Some session)), d'))"

text \<open>\<^verbatim>\<open>POST /api/sessions/:id/join\<close>\<close>

definition joinSession :: "db \<Rightarrow> int \<Rightarrow> string \<Rightarrow> response \<times> db" where
  "joinSession d userId idParam =
     (let sessionId = parseInt idParam in
      case session_findUnique d sessionId of
        Inl e \<Rightarrow> (Resp 500 (Error ''Failed to join session''), d)
      | Inr None \<Rightarrow> (Resp 404 (Error ''Session not found''), d)
      | Inr (Some session) \<Rightarrow>
          (let session_attendees = attendeesOf d (s_id session) in
           if list_ex (\<lambda>a. a_userId a = userId) session_attendees
           then (Resp 400 (Error ''Already joined this session''), d)
           else if int (length session_attendees) \<ge> s_maxAttendees session
           then (Resp 400 (Error ''Session is full''), d)
           else
             (case sessionAttendee_create d sessionId userId of
                (Inl e, d') \<Rightarrow> (Resp 500 (Error ''Failed to join session''), d')
              | (Inr a, d') \<Rightarrow>
                  (case session_findUnique d' sessionId of
                     Inl e \<Rightarrow> (Resp 500 (Error ''Failed to join session''), d')
                   | Inr updatedSession \<Rightarrow> (Resp 200 (sessionJson d' updatedSession), d')))))"

text \<open>
  The join handler awaits the store three times: for the session with its attendees, for
  the insert, and for the session it sends back. No transaction spans them, so another
  request can be served between the first and the second. The two definitions below cut
  the handler there: \<open>joinSession_read\<close> is the handler up to the insert, with either the
  response it returns early or the identifier it goes on with; \<open>joinSession_write\<close> is the
  insert and what follows.
\<close>

definition joinSession_read :: "db \<Rightarrow> int \<Rightarrow> string \<Rightarrow> response + number" where
  "joinSession_read d userId idParam =
     (let sessionId = parseInt idParam in
      case session_findUnique d sessionId of
        Inl e \<Rightarrow> Inl (Resp 500 (Error ''Failed to join session''))
      | Inr None \<Rightarrow> Inl (Resp 404 (Error ''Session not found''))
      | Inr (Some session) \<Rightarrow>
          (let session_attendees = attendeesOf d (s_id session) in
           if list_ex (\<lambda>a. a_userId a = userId) session_attendees
           then Inl (Resp 400 (Error ''Already joined this session''))
           else if int (length session_attendees) \<ge> s_maxAttendees session
           then Inl (Resp 400 (Error ''Session is full''))
           else Inr sessionId))"

definition joinSession_write :: "db \<Rightarrow> int \<Rightarrow> number \<Rightarrow> response \<times> db" where
  "joinSession_write d userId sessionId =
     (case sessionAttendee_create d sessionId userId of
        (Inl e, d') \<Rightarrow> (Resp 500 (Error ''Failed to join session''), d')
      | (Inr a, d') \<Rightarrow>
          (case session_findUnique d' sessionId of
             Inl e \<Rightarrow> (Resp 500 (Error ''Failed to join session''), d')
           | Inr updatedSession \<Rightarrow> (Resp 200 (sessionJson d' updatedSession), d')))"

text \<open>
  Two join requests that overlap: both read the store before either writes, then the
  first writes, then the second. The result is the two responses and the store left behind.
\<close>

definition joinSession_overlapped ::
  "db \<Rightarrow> int \<Rightarrow> string \<Rightarrow> int \<Rightarrow> string \<Rightarrow> (response \<times> response) \<times> db" where
  "joinSession_overlapped d userId1 idParam1 userId2 idParam2 =
     (let read1 = joinSession_read d userId1 idParam1;
          read2 = joinSession_read d userId2 idParam2;
          (res1, d1) = (case read1 of
                          Inl res \<Rightarrow> (res, d)
                        | Inr sessionId \<Rightarrow> joinSession_write d userId1 sessionId);
          (res2, d2) = (case read2 of
                          Inl res \<Rightarrow> (res, d1)
                        | Inr sessionId \<Rightarrow> joinSession_write d1 userId2 sessionId)
      in ((res1, res2), d2))"

text \<open>
  The read \<^verbatim>\<open>session.userId\<close> on what \<^verbatim>\<open>findUnique\<close> returned: on \<^verbatim>\<open>null\<close> it throws a
  \<^verbatim>\<open>TypeError\<close>.
\<close>

definition read_userId :: "session option \<Rightarrow> exn + int" where
  "read_userId session =
     (case session of
        None \<Rightarrow> Inl TypeError
      | Some s \<Rightarrow> Inr (s_userId s))"

text \<open>
  \<^verbatim>\<open>POST /api/sessions/:id/leave\<close>. The handler reads \<^verbatim>\<open>session.userId\<close> without testing
  \<^verbatim>\<open>session\<close> first; whatever is thrown inside the \<^verbatim>\<open>try\<close> is answered by the \<^verbatim>\<open>catch\<close>
  block.
\<close>

definition leaveSession :: "db \<Rightarrow> int \<Rightarrow> string \<Rightarrow> response \<times> db" where
  "leaveSession d userId idParam =
     (let sessionId = parseInt idParam in
      case session_findUnique d sessionId of
        Inl e \<Rightarrow> (Resp 500 (Error ''Failed to leave session''), d)
      | Inr session \<Rightarrow>
          (case read_userId session of
             Inl e \<Rightarrow> (Resp 500 (Error ''Failed to leave session''), d)
           | Inr creator \<Rightarrow>
               if creator = userId
               then (Resp 400 (Error ''Cannot leave a session you created''), d)
               else
                 (case sessionAttendee_deleteMany_pair d sessionId userId of
                    Inl e \<Rightarrow> (Resp 500 (Error ''Failed to leave session''), d)
                  | Inr d' \<Rightarrow>
                      (case session_findUnique d' sessionId of
                         Inl e \<Rightarrow> (Resp 500 (Error ''Failed to leave session''), d')
                       | Inr updatedSession \<Rightarrow>
                           (Resp 200 (sessionJson d' updatedSession), d')))))"

text \<open>\<^verbatim>\<open>DELETE /api/sessions/:id\<close>\<close>

definition deleteSession :: "db \<Rightarrow> int \<Rightarrow> string \<Rightarrow> response \<times> db" where
  "deleteSession d userId idParam =
     (let sessionId = parseInt idParam in
      case session_findUnique d sessionId of
        Inl e \<Rightarrow> (Resp 500 (Error ''Failed to delete session''), d)
      | Inr None \<Rightarrow> (Resp 404 (Error ''Session not found''), d)
      | Inr (Some session) \<Rightarrow>
          if s_userId session \<noteq> userId
          then (Resp 403 (Error ''You can only delete your own sessions''), d)
          else
            (case sessionAttendee_deleteMany d sessionId of
               Inl e \<Rightarrow> (Resp 500 (Error ''Failed to delete session''), d)
             | Inr d1 \<Rightarrow>
                 (case session_delete d1 sessionId of
                    Inl e \<Rightarrow> (Resp 500 (Error ''Failed to delete session''), d1)
                  | Inr d2 \<Rightarrow> (Resp 200 (Message ''Session deleted successfully''), d2))))"

text \<open>\<^verbatim>\<open>POST /api/artworks/:id/like\<close>\<close>

definition likeArtwork :: "bool \<Rightarrow> db \<Rightarrow> int \<Rightarrow> string \<Rightarrow> response \<times> db" where
  "likeArtwork fk d userId idParam =
     (let artworkId = parseInt idParam in
      case like_findUnique d userId artworkId of
        Inl e \<Rightarrow> (Resp 500 (ErrorWith ''Server error: '' e), d)
      | Inr (Some existingLike) \<Rightarrow>
          (case like_delete d (l_id existingLike) of
             Inl e \<Rightarrow> (Resp 500 (ErrorWith ''Server error: '' e), d)
           | Inr d' \<Rightarrow> (Resp 200 (LikeJson ''Unliked'' False), d'))
      | Inr None \<Rightarrow>
          (case like_create fk d userId artworkId of
             (Inl e, d') \<Rightarrow> (Resp 500 (ErrorWith ''Server error: '' e), d')
           | (Inr l, d') \<Rightarrow> (Resp 200 (LikeJson ''Liked'' True), d')))"

text \<open>\<^verbatim>\<open>DELETE /api/artworks/:id\<close>\<close>

definition deleteArtwork :: "db \<Rightarrow> int \<Rightarrow> string \<Rightarrow> response \<times> db" where
  "deleteArtwork d userId idParam =
     (let artworkId = parseInt idParam in
      case artwork_findUnique d artworkId of
        Inl e \<Rightarrow> (Resp 500 (Error ''Failed to delete artwork''), d)
      | Inr None \<Rightarrow> (Resp 404 (Error ''Artwork not found''), d)
      | Inr (Some artwork) \<Rightarrow>
          if w_userId artwork \<noteq> userId
          then (Resp 403 (Error ''You can only delete your own artworks''), d)
          else
            (case like_deleteMany d artworkId of
               Inl e \<Rightarrow> (Resp 500 (Error ''Failed to delete artwork''), d)
             | Inr d1 \<Rightarrow>
                 (case comment_deleteMany d1 artworkId of
                    Inl e \<Rightarrow> (Resp 500 (Error ''Failed to delete artwork''), d1)
                  | Inr d2 \<Rightarrow>
                      (case artwork_delete d2 artworkId of
                         Inl e \<Rightarrow> (Resp 500 (Error ''Failed to delete artwork''), d2)
                       | Inr d3 \<Rightarrow> (Resp 200 (Message ''Artwork deleted successfully''), d3)))))"

section \<open>Runs of requests\<close>

datatype request =
    CreateSession int session_body
  | JoinSession int string
  | LeaveSession int string
  | DeleteSession int string
  | LikeArtwork int string
  | DeleteArtwork int string

fun handle :: "bool \<Rightarrow> db \<Rightarrow> request \<Rightarrow> response \<times> db" where
  "handle fk d (CreateSession userId b) = createSession d userId b"
| "handle fk d (JoinSession userId idParam) = joinSession d userId idParam"
| "handle fk d (LeaveSession userId idParam) = leaveSession d userId idParam"
| "handle fk d (DeleteSession userId idParam) = deleteSession d userId idParam"
| "handle fk d (LikeArtwork userId idParam) = likeArtwork fk d userId idParam"
| "handle fk d (DeleteArtwork userId idParam) = deleteArtwork d userId idParam"

text \<open>
  The store after a list of requests, each served to its end before the next one starts.
  The server may also interleave requests wherever a handler awaits the store: \<open>run\<close>
  covers the serial executions only, \<open>joinSession_overlapped\<close> an interleaved one.
\<close>

fun run :: "bool \<Rightarrow> db \<Rightarrow> request list \<Rightarrow> db" where
  "run fk d [] = d"
| "run fk d (r # rs) = run fk (snd (handle fk d r)) rs"

section \<open>Properties of the store\<close>

text \<open>
  What the store keeps true by itself: primary keys of sessions are distinct and were
  handed out by the sequence, every attendee row points to a session, and the two unique
  indexes hold.
\<close>

definition store_ok :: "db \<Rightarrow> bool" where
  "store_ok d =
     (distinct (map s_id (sessions d)) \<and>
      list_all (\<lambda>s. s_id s < sessionSeq d) (sessions d) \<and>
      list_all (\<lambda>a. list_ex (\<lambda>s. s_id s = a_sessionId a) (sessions d)) (attendees d) \<and>
      distinct (map (\<lambda>a. (a_sessionId a, a_userId a)) (attendees d)) \<and>
      distinct (map (\<lambda>l. (l_userId l, l_artworkId l)) (likes d)))"

text \<open>The creator of every session is among its attendees.\<close>

definition creator_enrolled :: "db \<Rightarrow> bool" where
  "creator_enrolled d =
     list_all (\<lambda>s. list_ex (\<lambda>a. a_userId a = s_userId s) (attendeesOf d (s_id s))) (sessions d)"

section \<open>What each handler does to the store\<close>

lemma prismaInt_Some: "prismaInt (Some n) = (if int4 n then Inr n else Inl PrismaValidation)"
  by (simp add: prismaInt_def)

lemma prismaInt_Inr: "prismaInt v = Inr n \<longleftrightarrow> v = Some n \<and> int4 n"
  by (auto simp: prismaInt_def split: option.splits)

lemma prismaText_Inr:
  "prismaText v = Inr t \<longleftrightarrow> v = Some t \<and> utf8_text (length t) (map of_char t)"
  by (auto simp: prismaText_def split: option.splits)

lemma prismaDate_Inr:
  "prismaDate v = Inr ms \<longleftrightarrow>
     v = Some ms \<and> - 62167219200000 \<le> ms \<and> ms \<le> 253402300799999"
  by (auto simp: prismaDate_def split: option.splits)

lemma session_findUnique_Inr:
  "session_findUnique d v = Inr r \<longleftrightarrow>
     (\<exists>n. v = Some n \<and> int4 n \<and> r = find (\<lambda>s. s_id s = n) (sessions d))"
  by (auto simp: session_findUnique_def prismaInt_def split: option.splits sum.splits)

lemma find_sessionD: "find (\<lambda>s. s_id s = n) xs = Some s \<Longrightarrow> s \<in> set xs \<and> s_id s = n"
  by (induction xs) (auto split: if_splits)

lemma createSession_effect:
  assumes "createSession d u b = (r, d')"
  shows "(sessions d' = sessions d \<and> attendees d' = attendees d \<and> likes d' = likes d \<and>
          sessionSeq d \<le> sessionSeq d') \<or>
     (\<exists>t dt tm n. b_title b = Some t \<and> b_date b = Some dt \<and> b_time b = Some tm \<and>
        parseInt (b_maxAttendees b) = Some n \<and> int4 n \<and>
        \<not> list_ex (\<lambda>a. a_sessionId a = sessionSeq d \<and> a_userId a = u) (attendees d) \<and>
        d' = d\<lparr>sessionSeq := sessionSeq d + 1,
               sessions := sessions d @
                 [\<lparr>s_id = sessionSeq d, s_title = t, s_date = dt, s_time = tm,
                   s_maxAttendees = n, s_userId = u\<rparr>],
               attendeeSeq := attendeeSeq d + 1,
               attendees := attendees d @
                 [\<lparr>a_id = attendeeSeq d, a_sessionId = sessionSeq d, a_userId = u\<rparr>]\<rparr>)"
  using assms
  by (auto simp: createSession_def session_create_def Let_def attendee_insert_def
      prismaInt_Inr prismaText_Inr prismaDate_Inr
      split: sum.splits if_splits prod.splits)

lemma joinSession_effect:
  assumes "joinSession d u p = (r, d')"
  shows "d' = d \<or>
     (\<exists>s. session_findUnique d (parseInt p) = Inr (Some s) \<and>
        \<not> list_ex (\<lambda>a. a_userId a = u) (attendeesOf d (s_id s)) \<and>
        int (length (attendeesOf d (s_id s))) < s_maxAttendees s \<and>
        d' = d\<lparr>attendeeSeq := attendeeSeq d + 1,
               attendees := attendees d @
                 [\<lparr>a_id = attendeeSeq d, a_sessionId = s_id s, a_userId = u\<rparr>]\<rparr>)"
  using assms
  by (auto simp: joinSession_def Let_def sessionAttendee_create_def attendee_insert_def
      session_findUnique_Inr prismaInt_Some attendeesOf_def list_ex_iff
      dest!: find_sessionD
      split: sum.splits option.splits if_splits prod.splits)

lemma leaveSession_effect:
  assumes "leaveSession d u p = (r, d')"
  shows "d' = d \<or>
     (\<exists>s. session_findUnique d (parseInt p) = Inr (Some s) \<and> s_userId s \<noteq> u \<and>
        d' = d\<lparr>attendees :=
                 filter (\<lambda>a. \<not> (a_sessionId a = s_id s \<and> a_userId a = u)) (attendees d)\<rparr>)"
  using assms
  by (auto simp: leaveSession_def read_userId_def Let_def sessionAttendee_deleteMany_pair_def
      session_findUnique_Inr prismaInt_Some
      dest!: find_sessionD
      split: sum.splits option.splits if_splits)

lemma deleteSession_effect:
  assumes "deleteSession d u p = (r, d')"
  shows "d' = d \<or>
     (\<exists>s. session_findUnique d (parseInt p) = Inr (Some s) \<and> s_userId s = u \<and>
        d' = d\<lparr>attendees := filter (\<lambda>a. a_sessionId a \<noteq> s_id s) (attendees d),
               sessions := filter (\<lambda>x. s_id x \<noteq> s_id s) (sessions d)\<rparr>)"
  using assms
  by (auto simp: deleteSession_def Let_def sessionAttendee_deleteMany_def session_delete_def
      session_findUnique_Inr prismaInt_Some list_ex_iff
      dest!: find_sessionD
      split: sum.splits option.splits if_splits)

lemma likeArtwork_effect:
  assumes "likeArtwork fk d u p = (r, d')"
  shows "sessions d' = sessions d \<and> attendees d' = attendees d \<and>
         sessionSeq d' = sessionSeq d \<and>
         (likes d' = likes d \<or> (\<exists>i. likes d' = filter (\<lambda>l. l_id l \<noteq> i) (likes d)) \<or>
          (\<exists>n i. \<not> list_ex (\<lambda>l. l_userId l = u \<and> l_artworkId l = n) (likes d) \<and>
             likes d' = likes d @ [\<lparr>l_id = i, l_userId = u, l_artworkId = n\<rparr>]))"
  using assms
  by (auto simp: likeArtwork_def Let_def like_findUnique_def like_delete_def like_create_def
      prismaInt_Some
      split: sum.splits option.splits if_splits prod.splits)

lemma deleteArtwork_effect:
  assumes "deleteArtwork d u p = (r, d')"
  shows "sessions d' = sessions d \<and> attendees d' = attendees d \<and>
         sessionSeq d' = sessionSeq d \<and>
         (likes d' = likes d \<or> (\<exists>n. likes d' = filter (\<lambda>l. l_artworkId l \<noteq> n) (likes d)))"
  using assms
  by (auto simp: deleteArtwork_def Let_def artwork_findUnique_def like_deleteMany_def
      comment_deleteMany_def artwork_delete_def prismaInt_Some
      split: sum.splits option.splits if_splits)


lemma store_ok_createSession:
  assumes "store_ok d" and "createSession d u b = (r, d')"
  shows "store_ok d'"
  using createSession_effect [OF assms(2)] assms(1)
  by (fastforce simp: store_ok_def list_all_iff list_ex_iff)

lemma session_findUnique_SomeD:
  "session_findUnique d v = Inr (Some s) \<Longrightarrow> s \<in> set (sessions d) \<and> v = Some (s_id s)"
  by (auto simp: session_findUnique_Inr dest: find_sessionD [OF sym])

lemma store_ok_joinSession:
  assumes "store_ok d" and "joinSession d u p = (r, d')"
  shows "store_ok d'"
  using joinSession_effect [OF assms(2)]
proof (elim disjE exE conjE)
  assume "d' = d"
  with assms(1) show ?thesis by simp
next
  fix s
  assume found: "session_findUnique d (parseInt p) = Inr (Some s)"
    and absent: "\<not> list_ex (\<lambda>a. a_userId a = u) (attendeesOf d (s_id s))"
    and d': "d' = d\<lparr>attendeeSeq := attendeeSeq d + 1,
               attendees := attendees d @
                 [\<lparr>a_id = attendeeSeq d, a_sessionId = s_id s, a_userId = u\<rparr>]\<rparr>"
  from found have s: "s \<in> set (sessions d)"
    by (simp add: session_findUnique_SomeD)
  from absent have "(s_id s, u) \<notin> (\<lambda>a. (a_sessionId a, a_userId a)) ` set (attendees d)"
    by (auto simp: list_ex_iff attendeesOf_def)
  with assms(1) s show ?thesis
    unfolding d' store_ok_def by (auto simp: list_all_iff list_ex_iff)
qed

lemma store_ok_leaveSession:
  assumes "store_ok d" and "leaveSession d u p = (r, d')"
  shows "store_ok d'"
  using leaveSession_effect [OF assms(2)] assms(1)
  by (auto simp: store_ok_def list_all_iff list_ex_iff distinct_map_filter)

lemma store_ok_deleteSession:
  assumes "store_ok d" and "deleteSession d u p = (r, d')"
  shows "store_ok d'"
  using deleteSession_effect [OF assms(2)]
proof (elim disjE exE conjE)
  assume "d' = d"
  with assms(1) show ?thesis by simp
next
  fix s
  assume d': "d' = d\<lparr>attendees := filter (\<lambda>a. a_sessionId a \<noteq> s_id s) (attendees d),
               sessions := filter (\<lambda>x. s_id x \<noteq> s_id s) (sessions d)\<rparr>"
  have fk: "\<exists>x\<in>set (sessions d). s_id x \<noteq> s_id s \<and> s_id x = a_sessionId a"
    if "a \<in> set (attendees d)" and "a_sessionId a \<noteq> s_id s" for a
    using that assms(1) unfolding store_ok_def list_all_iff list_ex_iff by metis
  from assms(1) show ?thesis
    unfolding d' store_ok_def
    by (auto simp: list_all_iff list_ex_iff distinct_map_filter dest: fk)
qed

lemma store_ok_likeArtwork:
  assumes "store_ok d" and "likeArtwork fk d u p = (r, d')"
  shows "store_ok d'"
  using likeArtwork_effect [OF assms(2)] assms(1)
  by (auto simp: store_ok_def list_all_iff list_ex_iff distinct_map_filter)

lemma store_ok_deleteArtwork:
  assumes "store_ok d" and "deleteArtwork d u p = (r, d')"
  shows "store_ok d'"
  using deleteArtwork_effect [OF assms(2)] assms(1)
  by (auto simp: store_ok_def list_all_iff list_ex_iff distinct_map_filter)

lemma store_ok_handle: "store_ok d \<Longrightarrow> store_ok (snd (handle fk d q))"
  by (cases q; cases "handle fk d q")
     (auto intro: store_ok_createSession store_ok_joinSession store_ok_leaveSession
        store_ok_deleteSession store_ok_likeArtwork store_ok_deleteArtwork)

lemma store_ok_run: "store_ok d \<Longrightarrow> store_ok (run fk d qs)"
  by (induction qs arbitrary: d) (auto intro: store_ok_handle)

lemma store_ok_emptyDb: "store_ok emptyDb"
  by (simp add: store_ok_def emptyDb_def)


lemma same_id_same_session:
  assumes "store_ok d" and "x \<in> set (sessions d)" and "y \<in> set (sessions d)"
    and "s_id x = s_id y"
  shows "x = y"
proof -
  from assms(1) have "inj_on s_id (set (sessions d))"
    by (simp add: store_ok_def distinct_map)
  with assms(2-4) show ?thesis by (auto dest: inj_onD)
qed

lemma no_attendee_of_fresh_id:
  assumes "store_ok d"
  shows "filter (\<lambda>a. a_sessionId a = sessionSeq d) (attendees d) = []"
proof -
  have "a_sessionId a \<noteq> sessionSeq d" if "a \<in> set (attendees d)" for a
  proof -
    from assms that obtain s where "s \<in> set (sessions d)" and "s_id s = a_sessionId a"
      unfolding store_ok_def list_all_iff list_ex_iff by metis
    moreover from assms this(1) have "s_id s < sessionSeq d"
      by (simp add: store_ok_def list_all_iff)
    ultimately show ?thesis by simp
  qed
  then show ?thesis by (simp add: filter_empty_conv)
qed

lemma creator_enrolled_iff:
  "creator_enrolled d \<longleftrightarrow>
     (\<forall>s\<in>set (sessions d). \<exists>a\<in>set (attendees d).
        a_sessionId a = s_id s \<and> a_userId a = s_userId s)"
  by (auto simp: creator_enrolled_def attendeesOf_def list_all_iff list_ex_iff)

lemma creator_enrolled_createSession:
  assumes "creator_enrolled d" and "createSession d u b = (r, d')"
  shows "creator_enrolled d'"
  using createSession_effect [OF assms(2)]
proof (elim disjE exE conjE)
  assume "sessions d' = sessions d" and "attendees d' = attendees d"
  with assms(1) show ?thesis by (simp add: creator_enrolled_iff)
next
  fix t dt tm n
  assume d': "d' = d\<lparr>sessionSeq := sessionSeq d + 1,
               sessions := sessions d @
                 [\<lparr>s_id = sessionSeq d, s_title = t, s_date = dt, s_time = tm,
                   s_maxAttendees = n, s_userId = u\<rparr>],
               attendeeSeq := attendeeSeq d + 1,
               attendees := attendees d @
                 [\<lparr>a_id = attendeeSeq d, a_sessionId = sessionSeq d, a_userId = u\<rparr>]\<rparr>"
  from assms(1) show ?thesis
    unfolding d' creator_enrolled_iff by auto
qed

lemma creator_enrolled_joinSession:
  assumes "creator_enrolled d" and "joinSession d u p = (r, d')"
  shows "creator_enrolled d'"
  using joinSession_effect [OF assms(2)]
proof (elim disjE exE conjE)
  assume "d' = d"
  with assms(1) show ?thesis by simp
next
  fix s
  assume d': "d' = d\<lparr>attendeeSeq := attendeeSeq d + 1,
               attendees := attendees d @
                 [\<lparr>a_id = attendeeSeq d, a_sessionId = s_id s, a_userId = u\<rparr>]\<rparr>"
  from assms(1) show ?thesis
    unfolding d' creator_enrolled_iff by auto
qed

lemma creator_enrolled_leaveSession:
  assumes "store_ok d" and "creator_enrolled d" and "leaveSession d u p = (r, d')"
  shows "creator_enrolled d'"
  using leaveSession_effect [OF assms(3)]
proof (elim disjE exE conjE)
  assume "d' = d"
  with assms(2) show ?thesis by simp
next
  fix s
  assume found: "session_findUnique d (parseInt p) = Inr (Some s)"
    and other: "s_userId s \<noteq> u"
    and d': "d' = d\<lparr>attendees :=
                 filter (\<lambda>a. \<not> (a_sessionId a = s_id s \<and> a_userId a = u)) (attendees d)\<rparr>"
  from found have s: "s \<in> set (sessions d)"
    by (simp add: session_findUnique_SomeD)
  have "\<exists>a\<in>set (attendees d). \<not> (a_sessionId a = s_id s \<and> a_userId a = u) \<and>
          a_sessionId a = s_id x \<and> a_userId a = s_userId x"
    if x: "x \<in> set (sessions d)" for x
  proof -
    from assms(2) x obtain a where a: "a \<in> set (attendees d)" "a_sessionId a = s_id x"
      "a_userId a = s_userId x"
      unfolding creator_enrolled_iff by blast
    have "a_userId a \<noteq> u" if "a_sessionId a = s_id s"
      using same_id_same_session [OF assms(1) x s] that a other by simp
    with a show ?thesis by blast
  qed
  then show ?thesis
    unfolding d' creator_enrolled_iff by (simp add: Bex_def)
qed

lemma creator_enrolled_deleteSession:
  assumes "creator_enrolled d" and "deleteSession d u p = (r, d')"
  shows "creator_enrolled d'"
  using deleteSession_effect [OF assms(2)]
proof (elim disjE exE conjE)
  assume "d' = d"
  with assms(1) show ?thesis by simp
next
  fix s
  assume d': "d' = d\<lparr>attendees := filter (\<lambda>a. a_sessionId a \<noteq> s_id s) (attendees d),
               sessions := filter (\<lambda>x. s_id x \<noteq> s_id s) (sessions d)\<rparr>"
  from assms(1) show ?thesis
    unfolding d' creator_enrolled_iff by simp metis
qed

lemma creator_enrolled_handle:
  assumes "store_ok d" and "creator_enrolled d"
  shows "creator_enrolled (snd (handle fk d q))"
proof (cases q)
  case (CreateSession u b)
  with assms(2) show ?thesis
    by (cases "createSession d u b") (auto intro: creator_enrolled_createSession)
next
  case (JoinSession u p)
  with assms(2) show ?thesis
    by (cases "joinSession d u p") (auto intro: creator_enrolled_joinSession)
next
  case (LeaveSession u p)
  with assms show ?thesis
    by (cases "leaveSession d u p") (auto intro: creator_enrolled_leaveSession)
next
  case (DeleteSession u p)
  with assms(2) show ?thesis
    by (cases "deleteSession d u p") (auto intro: creator_enrolled_deleteSession)
next
  case (LikeArtwork u p)
  with assms(2) show ?thesis
    by (cases "likeArtwork fk d u p")
       (auto simp: creator_enrolled_iff dest!: likeArtwork_effect)
next
  case (DeleteArtwork u p)
  with assms(2) show ?thesis
    by (cases "deleteArtwork d u p")
       (auto simp: creator_enrolled_iff dest!: deleteArtwork_effect)
qed

lemma creator_enrolled_run:
  "store_ok d \<Longrightarrow> creator_enrolled d \<Longrightarrow> creator_enrolled (run fk d qs)"
  by (induction qs arbitrary: d) (auto intro: creator_enrolled_handle store_ok_handle)

lemma createSession_200:
  assumes "store_ok d" and "createSession d u b = (Resp 200 bd, d')"
  shows "\<exists>s a. bd = SessionJson s [a] \<and> s_userId s = u \<and> a_userId a = u \<and>
           a_sessionId a = s_id s \<and> sessions d' = sessions d @ [s] \<and>
           attendees d' = attendees d @ [a]"
  using assms(2)
  by (auto simp: createSession_def session_create_def Let_def attendee_insert_def
      sessionJson_def attendeesOf_def no_attendee_of_fresh_id [OF assms(1)]
      split: sum.splits if_splits prod.splits)


section \<open>Evaluation on concrete requests\<close>

text \<open>The definitions that a concrete run unfolds.\<close>

lemmas eval_defs = parseInt_def ascii_ws_def digitValue_def prismaInt_def int4_def
  utf8_cont_def prismaText_def prismaDate_def joinSession_read_def joinSession_write_def
  joinSession_overlapped_def
  session_findUnique_def attendeesOf_def attendee_insert_def sessionAttendee_create_def
  session_create_def sessionAttendee_deleteMany_pair_def sessionAttendee_deleteMany_def
  session_delete_def sessionJson_def createSession_def joinSession_def leaveSession_def
  deleteSession_def read_userId_def emptyDb_def artwork_findUnique_def like_findUnique_def like_delete_def
  like_create_def like_deleteMany_def comment_deleteMany_def artwork_delete_def
  likeArtwork_def deleteArtwork_def Let_def

section \<open>Capacity of a session\<close>

lemma joinSession_read_write:
  "joinSession d u p =
     (case joinSession_read d u p of
        Inl res \<Rightarrow> (res, d)
      | Inr sessionId \<Rightarrow> joinSession_write d u sessionId)"
  by (simp add: joinSession_def joinSession_read_def joinSession_write_def Let_def
      split: sum.splits option.splits)

lemma joinSession_read_room:
  assumes "session_findUnique d (parseInt p) = Inr (Some s)"
    and "\<not> list_ex (\<lambda>a. a_userId a = u) (attendeesOf d (s_id s))"
    and "int (length (attendeesOf d (s_id s))) < s_maxAttendees s"
  shows "joinSession_read d u p = Inr (Some (s_id s))"
proof -
  from assms(1) have "parseInt p = Some (s_id s)"
    by (simp add: session_findUnique_SomeD)
  with assms show ?thesis
    by (simp add: joinSession_read_def)
qed

lemma joinSession_write_row:
  assumes s: "s \<in> set (sessions d)" and n: "int4 (s_id s)"
    and absent: "\<not> list_ex (\<lambda>a. a_userId a = u) (attendeesOf d (s_id s))"
  shows "status (fst (joinSession_write d u (Some (s_id s)))) = 200"
    and "snd (joinSession_write d u (Some (s_id s))) =
      d\<lparr>attendeeSeq := attendeeSeq d + 1,
        attendees := attendees d @
          [\<lparr>a_id = attendeeSeq d, a_sessionId = s_id s, a_userId = u\<rparr>]\<rparr>"
proof -
  from absent have "\<not> list_ex (\<lambda>a. a_sessionId a = s_id s \<and> a_userId a = u) (attendees d)"
    by (auto simp: list_ex_iff attendeesOf_def)
  with s have ins: "sessionAttendee_create d (Some (s_id s)) u =
      (Inr \<lparr>a_id = attendeeSeq d, a_sessionId = s_id s, a_userId = u\<rparr>,
       d\<lparr>attendeeSeq := attendeeSeq d + 1,
         attendees := attendees d @
           [\<lparr>a_id = attendeeSeq d, a_sessionId = s_id s, a_userId = u\<rparr>]\<rparr>)"
    by (auto simp: sessionAttendee_create_def attendee_insert_def prismaInt_Some n list_ex_iff
        Let_def)
  have again: "session_findUnique d2 (Some (s_id s)) =
      Inr (find (\<lambda>x. s_id x = s_id s) (sessions d2))" for d2
    by (simp add: session_findUnique_def prismaInt_Some n)
  show "status (fst (joinSession_write d u (Some (s_id s)))) = 200"
    by (simp add: joinSession_write_def ins again)
  show "snd (joinSession_write d u (Some (s_id s))) =
      d\<lparr>attendeeSeq := attendeeSeq d + 1,
        attendees := attendees d @
          [\<lparr>a_id = attendeeSeq d, a_sessionId = s_id s, a_userId = u\<rparr>]\<rparr>"
    by (simp add: joinSession_write_def ins again)
qed

text \<open>
  Claim C1. The join handler guards the capacity: a join by a user who is not yet an
  attendee of an existing session is answered 400 \<^verbatim>\<open>Session is full\<close>, with the store
  untouched, whenever the number of attendee rows has reached \<^verbatim>\<open>maxAttendees\<close>. The guard
  is a read followed by a separate insert. For a session with one place left and two users
  who are not attendees: served one after the other, the first join is let in and the
  second is answered 400 \<^verbatim>\<open>Session is full\<close>; when the two requests overlap, both are
  answered 200, both rows are stored, and the session holds one attendee more than its
  \<^verbatim>\<open>maxAttendees\<close>.
\<close>

theorem join_overlap_exceeds_capacity:
  "session_findUnique d (parseInt p) = Inr (Some s) \<longrightarrow>
   \<not> list_ex (\<lambda>a. a_userId a = u1) (attendeesOf d (s_id s)) \<longrightarrow>
     (s_maxAttendees s \<le> int (length (attendeesOf d (s_id s))) \<longrightarrow>
        joinSession d u1 p = (Resp 400 (Error ''Session is full''), d)) \<and>
     (\<not> list_ex (\<lambda>a. a_userId a = u2) (attendeesOf d (s_id s)) \<longrightarrow> u1 \<noteq> u2 \<longrightarrow>
      int (length (attendeesOf d (s_id s))) + 1 = s_maxAttendees s \<longrightarrow>
        status (fst (joinSession d u1 p)) = 200 \<and>
        fst (joinSession (snd (joinSession d u1 p)) u2 p) =
          Resp 400 (Error ''Session is full'') \<and>
        status (fst (fst (joinSession_overlapped d u1 p u2 p))) = 200 \<and>
        status (snd (fst (joinSession_overlapped d u1 p u2 p))) = 200 \<and>
        attendees (snd (joinSession_overlapped d u1 p u2 p)) =
          attendees d @
            [\<lparr>a_id = attendeeSeq d, a_sessionId = s_id s, a_userId = u1\<rparr>,
             \<lparr>a_id = attendeeSeq d + 1, a_sessionId = s_id s, a_userId = u2\<rparr>] \<and>
        int (length (attendeesOf (snd (joinSession_overlapped d u1 p u2 p)) (s_id s))) =
          s_maxAttendees s + 1)"
proof (intro impI conjI)
  assume "session_findUnique d (parseInt p) = Inr (Some s)"
    and "\<not> list_ex (\<lambda>a. a_userId a = u1) (attendeesOf d (s_id s))"
    and "s_maxAttendees s \<le> int (length (attendeesOf d (s_id s)))"
  then show "joinSession d u1 p = (Resp 400 (Error ''Session is full''), d)"
    by (simp add: joinSession_def)
next
  let ?row1 = "\<lparr>a_id = attendeeSeq d, a_sessionId = s_id s, a_userId = u1\<rparr>"
  let ?row2 = "\<lparr>a_id = attendeeSeq d + 1, a_sessionId = s_id s, a_userId = u2\<rparr>"
  let ?d1 = "d\<lparr>attendeeSeq := attendeeSeq d + 1, attendees := attendees d @ [?row1]\<rparr>"
  assume found: "session_findUnique d (parseInt p) = Inr (Some s)"
    and absent1: "\<not> list_ex (\<lambda>a. a_userId a = u1) (attendeesOf d (s_id s))"
    and absent2: "\<not> list_ex (\<lambda>a. a_userId a = u2) (attendeesOf d (s_id s))"
    and diff: "u1 \<noteq> u2"
    and last: "int (length (attendeesOf d (s_id s))) + 1 = s_maxAttendees s"
  from found have p: "parseInt p = Some (s_id s)" and n: "int4 (s_id s)"
    and s: "s \<in> set (sessions d)"
    by (auto simp: session_findUnique_Inr dest: find_sessionD [OF sym])
  from last have room: "int (length (attendeesOf d (s_id s))) < s_maxAttendees s"
    by simp
  note read1 = joinSession_read_room [OF found absent1 room]
  note read2 = joinSession_read_room [OF found absent2 room]
  note write1 = joinSession_write_row [OF s n absent1]
  have s1: "s \<in> set (sessions ?d1)"
    using s by simp
  have absent2': "\<not> list_ex (\<lambda>a. a_userId a = u2) (attendeesOf ?d1 (s_id s))"
    using absent2 diff by (simp add: attendeesOf_def)
  note write2 = joinSession_write_row [OF s1 n absent2']
  have serial1: "joinSession d u1 p = joinSession_write d u1 (Some (s_id s))"
    by (simp add: joinSession_read_write read1)
  show "status (fst (joinSession d u1 p)) = 200"
    by (simp add: serial1 write1)
  have found1: "session_findUnique ?d1 (parseInt p) = Inr (Some s)"
    using found by (simp add: session_findUnique_Inr)
  have full1: "s_maxAttendees s \<le> int (length (attendeesOf ?d1 (s_id s)))"
    using last by (simp add: attendeesOf_def)
  from found1 absent2' full1
  have "joinSession ?d1 u2 p = (Resp 400 (Error ''Session is full''), ?d1)"
    by (simp add: joinSession_def)
  then show "fst (joinSession (snd (joinSession d u1 p)) u2 p) =
          Resp 400 (Error ''Session is full'')"
    by (simp add: serial1 write1)
  have over: "joinSession_overlapped d u1 p u2 p =
      ((fst (joinSession_write d u1 (Some (s_id s))),
        fst (joinSession_write ?d1 u2 (Some (s_id s)))),
       snd (joinSession_write ?d1 u2 (Some (s_id s))))"
    by (simp add: joinSession_overlapped_def read1 read2 write1(2) Let_def case_prod_beta)
  show "status (fst (fst (joinSession_overlapped d u1 p u2 p))) = 200"
    by (simp add: over write1)
  show "status (snd (fst (joinSession_overlapped d u1 p u2 p))) = 200"
    by (simp add: over write2)
  show "attendees (snd (joinSession_overlapped d u1 p u2 p)) = attendees d @ [?row1, ?row2]"
    by (simp add: over write2)
  show "int (length (attendeesOf (snd (joinSession_overlapped d u1 p u2 p)) (s_id s))) =
          s_maxAttendees s + 1"
    using last by (simp add: over write2 attendeesOf_def)
qed

text \<open>
  A session for two with its creator enrolled; users 2 and 3 ask to join at the same time,
  and user 4 asks once the session is full.
\<close>

theorem join_overlap_exceeds_capacity_witness:
  "joinSession_overlapped
      \<lparr>sessions = [\<lparr>s_id = 1, s_title = ''Breathwork'', s_date = 1736467200000,
                     s_time = ''18:00'', s_maxAttendees = 2, s_userId = 1\<rparr>],
        attendees = [\<lparr>a_id = 1, a_sessionId = 1, a_userId = 1\<rparr>],
        artworks = [], likes = [], comments = [],
        sessionSeq = 2, attendeeSeq = 2, likeSeq = 1\<rparr> 2 ''1'' 3 ''1'' =
     ((Resp 200 (SessionJson
         \<lparr>s_id = 1, s_title = ''Breathwork'', s_date = 1736467200000,
           s_time = ''18:00'', s_maxAttendees = 2, s_userId = 1\<rparr>
         [\<lparr>a_id = 1, a_sessionId = 1, a_userId = 1\<rparr>,
          \<lparr>a_id = 2, a_sessionId = 1, a_userId = 2\<rparr>]),
       Resp 200 (SessionJson
         \<lparr>s_id = 1, s_title = ''Breathwork'', s_date = 1736467200000,
           s_time = ''18:00'', s_maxAttendees = 2, s_userId = 1\<rparr>
         [\<lparr>a_id = 1, a_sessionId = 1, a_userId = 1\<rparr>,
          \<lparr>a_id = 2, a_sessionId = 1, a_userId = 2\<rparr>,
          \<lparr>a_id = 3, a_sessionId = 1, a_userId = 3\<rparr>])),
      \<lparr>sessions = [\<lparr>s_id = 1, s_title = ''Breathwork'', s_date = 1736467200000,
                     s_time = ''18:00'', s_maxAttendees = 2, s_userId = 1\<rparr>],
        attendees = [\<lparr>a_id = 1, a_sessionId = 1, a_userId = 1\<rparr>,
                     \<lparr>a_id = 2, a_sessionId = 1, a_userId = 2\<rparr>,
                     \<lparr>a_id = 3, a_sessionId = 1, a_userId = 3\<rparr>],
        artworks = [], likes = [], comments = [],
        sessionSeq = 2, attendeeSeq = 4, likeSeq = 1\<rparr>) \<and>
   fst (joinSession
      \<lparr>sessions = [\<lparr>s_id = 1, s_title = ''Breathwork'', s_date = 1736467200000,
                     s_time = ''18:00'', s_maxAttendees = 2, s_userId = 1\<rparr>],
        attendees = [\<lparr>a_id = 1, a_sessionId = 1, a_userId = 1\<rparr>,
                     \<lparr>a_id = 2, a_sessionId = 1, a_userId = 2\<rparr>],
        artworks = [], likes = [], comments = [],
        sessionSeq = 2, attendeeSeq = 3, likeSeq = 1\<rparr> 4 ''1'') =
     Resp 400 (Error ''Session is full'')"
proof -
  let ?S = "\<lparr>s_id = 1, s_title = ''Breathwork'', s_date = 1736467200000, s_time = ''18:00'',
       s_maxAttendees = 2, s_userId = 1\<rparr>"
  let ?D1 = "\<lparr>sessions = [?S],
      attendees = [\<lparr>a_id = 1, a_sessionId = 1, a_userId = 1\<rparr>],
      artworks = [], likes = [], comments = [], sessionSeq = 2, attendeeSeq = 2, likeSeq = 1\<rparr>"
  let ?D2 = "\<lparr>sessions = [?S],
      attendees = [\<lparr>a_id = 1, a_sessionId = 1, a_userId = 1\<rparr>,
                   \<lparr>a_id = 2, a_sessionId = 1, a_userId = 2\<rparr>],
      artworks = [], likes = [], comments = [], sessionSeq = 2, attendeeSeq = 3, likeSeq = 1\<rparr>"
  have found1: "session_findUnique ?D1 (parseInt ''1'') = Inr (Some ?S)"
    by (simp add: eval_defs)
  have absent2: "\<not> list_ex (\<lambda>a. a_userId a = 2) (attendeesOf ?D1 (s_id ?S))"
    by (simp add: attendeesOf_def)
  have absent3: "\<not> list_ex (\<lambda>a. a_userId a = 3) (attendeesOf ?D1 (s_id ?S))"
    by (simp add: attendeesOf_def)
  have last: "int (length (attendeesOf ?D1 (s_id ?S))) + 1 = s_maxAttendees ?S"
    by (simp add: attendeesOf_def)
  have found2: "session_findUnique ?D2 (parseInt ''1'') = Inr (Some ?S)"
    by (simp add: eval_defs)
  have absent4: "\<not> list_ex (\<lambda>a. a_userId a = 4) (attendeesOf ?D2 (s_id ?S))"
    by (simp add: attendeesOf_def)
  have full: "s_maxAttendees ?S \<le> int (length (attendeesOf ?D2 (s_id ?S)))"
    by (simp add: attendeesOf_def)
  from join_overlap_exceeds_capacity [of ?D1 "''1''" ?S 2 3] found1 absent2 absent3 last
  have "int (length (attendeesOf (snd (joinSession_overlapped ?D1 2 ''1'' 3 ''1'')) 1)) = 3"
    by simp
  moreover have "joinSession_overlapped ?D1 2 ''1'' 3 ''1'' =
     ((Resp 200 (SessionJson ?S
         [\<lparr>a_id = 1, a_sessionId = 1, a_userId = 1\<rparr>,
          \<lparr>a_id = 2, a_sessionId = 1, a_userId = 2\<rparr>]),
       Resp 200 (SessionJson ?S
         [\<lparr>a_id = 1, a_sessionId = 1, a_userId = 1\<rparr>,
          \<lparr>a_id = 2, a_sessionId = 1, a_userId = 2\<rparr>,
          \<lparr>a_id = 3, a_sessionId = 1, a_userId = 3\<rparr>])),
      \<lparr>sessions = [?S],
        attendees = [\<lparr>a_id = 1, a_sessionId = 1, a_userId = 1\<rparr>,
                     \<lparr>a_id = 2, a_sessionId = 1, a_userId = 2\<rparr>,
                     \<lparr>a_id = 3, a_sessionId = 1, a_userId = 3\<rparr>],
        artworks = [], likes = [], comments = [],
        sessionSeq = 2, attendeeSeq = 4, likeSeq = 1\<rparr>)"
    by (simp add: eval_defs)
  moreover from join_overlap_exceeds_capacity [of ?D2 "''1''" ?S 4] found2 absent4 full
  have "fst (joinSession ?D2 4 ''1'') = Resp 400 (Error ''Session is full'')"
    by simp
  ultimately show ?thesis by simp
qed

text \<open>
  The bound also fails without any overlap for a session created with capacity 0: the
  create handler stores the capacity as given and enrolls the creator, so the session holds
  one attendee against a maximum of zero.
\<close>

lemma capacity_zero_session:
  "sessions (run True emptyDb
      [CreateSession 1 \<lparr>b_title = Some ''Breathwork'', b_date = Some 1736467200000,
         b_time = Some ''18:00'', b_maxAttendees = ''0''\<rparr>]) =
     [\<lparr>s_id = 1, s_title = ''Breathwork'', s_date = 1736467200000, s_time = ''18:00'',
       s_maxAttendees = 0, s_userId = 1\<rparr>] \<and>
   attendeesOf (run True emptyDb
      [CreateSession 1 \<lparr>b_title = Some ''Breathwork'', b_date = Some 1736467200000,
         b_time = Some ''18:00'', b_maxAttendees = ''0''\<rparr>]) 1 =
     [\<lparr>a_id = 1, a_sessionId = 1, a_userId = 1\<rparr>]"
  by (simp add: eval_defs)

section \<open>The like toggle\<close>

lemma like_findUnique_Some:
  "int4 n \<Longrightarrow> like_findUnique d u (Some n) =
     Inr (find (\<lambda>l. l_userId l = u \<and> l_artworkId l = n) (likes d))"
  by (simp add: like_findUnique_def prismaInt_Some)

lemma artwork_findUnique_Inr:
  "artwork_findUnique d v = Inr r \<longleftrightarrow>
     (\<exists>n. v = Some n \<and> int4 n \<and> r = find (\<lambda>w. w_id w = n) (artworks d))"
  by (auto simp: artwork_findUnique_def prismaInt_def split: option.splits sum.splits)

lemma find_artworkD: "find (\<lambda>w. w_id w = n) xs = Some w \<Longrightarrow> w \<in> set xs \<and> w_id w = n"
  by (induction xs) (auto split: if_splits)

lemma artwork_findUnique_SomeD:
  "artwork_findUnique d v = Inr (Some w) \<Longrightarrow>
     w \<in> set (artworks d) \<and> v = Some (w_id w) \<and> int4 (w_id w)"
  by (auto simp: artwork_findUnique_Inr dest: find_artworkD [OF sym])

lemma unlike_step:
  assumes p: "parseInt p = Some n" and n: "int4 n"
    and uniq: "distinct (map (\<lambda>l. (l_userId l, l_artworkId l)) (likes d))"
    and ex: "list_ex (\<lambda>l. l_userId l = u \<and> l_artworkId l = n) (likes d)"
  shows "fst (likeArtwork fk d u p) = Resp 200 (LikeJson ''Unliked'' False) \<and>
         \<not> list_ex (\<lambda>l. l_userId l = u \<and> l_artworkId l = n)
              (likes (snd (likeArtwork fk d u p))) \<and>
         artworks (snd (likeArtwork fk d u p)) = artworks d \<and>
         distinct (map (\<lambda>l. (l_userId l, l_artworkId l)) (likes (snd (likeArtwork fk d u p))))"
proof -
  from ex obtain e where e: "find (\<lambda>l. l_userId l = u \<and> l_artworkId l = n) (likes d) = Some e"
    by (cases "find (\<lambda>l. l_userId l = u \<and> l_artworkId l = n) (likes d)")
       (auto simp: find_None_iff list_ex_iff)
  then have mem: "e \<in> set (likes d)" and pair: "l_userId e = u" "l_artworkId e = n"
    by (auto simp: find_Some_iff)
  have same: "l = e" if "l \<in> set (likes d)" and "l_userId l = u" and "l_artworkId l = n" for l
  proof -
    from uniq have "inj_on (\<lambda>l. (l_userId l, l_artworkId l)) (set (likes d))"
      by (simp add: distinct_map)
    with that mem pair show ?thesis by (auto dest: inj_onD)
  qed
  from mem have del: "like_delete d (l_id e) =
      Inr (d\<lparr>likes := filter (\<lambda>l. l_id l \<noteq> l_id e) (likes d)\<rparr>)"
    by (auto simp: like_delete_def list_ex_iff)
  have run: "likeArtwork fk d u p =
      (Resp 200 (LikeJson ''Unliked'' False),
       d\<lparr>likes := filter (\<lambda>l. l_id l \<noteq> l_id e) (likes d)\<rparr>)"
    by (simp add: likeArtwork_def p like_findUnique_Some [OF n] e del)
  from uniq show ?thesis
    unfolding run by (auto simp: list_ex_iff distinct_map_filter dest: same)
qed

lemma like_step:
  assumes p: "parseInt p = Some n" and n: "int4 n"
    and art: "list_ex (\<lambda>w. w_id w = n) (artworks d)"
    and uniq: "distinct (map (\<lambda>l. (l_userId l, l_artworkId l)) (likes d))"
    and nex: "\<not> list_ex (\<lambda>l. l_userId l = u \<and> l_artworkId l = n) (likes d)"
  shows "likeArtwork fk d u p =
           (Resp 200 (LikeJson ''Liked'' True),
            d\<lparr>likeSeq := likeSeq d + 1,
              likes := likes d @ [\<lparr>l_id = likeSeq d, l_userId = u, l_artworkId = n\<rparr>]\<rparr>)"
    and "distinct (map (\<lambda>l. (l_userId l, l_artworkId l))
           (likes d @ [\<lparr>l_id = likeSeq d, l_userId = u, l_artworkId = n\<rparr>]))"
proof -
  from nex have none: "find (\<lambda>l. l_userId l = u \<and> l_artworkId l = n) (likes d) = None"
    by (auto simp: find_None_iff list_ex_iff)
  from nex art have "like_create fk d u (Some n) =
      (Inr \<lparr>l_id = likeSeq d, l_userId = u, l_artworkId = n\<rparr>,
       d\<lparr>likeSeq := likeSeq d + 1,
         likes := likes d @ [\<lparr>l_id = likeSeq d, l_userId = u, l_artworkId = n\<rparr>]\<rparr>)"
    by (simp add: like_create_def prismaInt_Some n Let_def)
  then show "likeArtwork fk d u p =
           (Resp 200 (LikeJson ''Liked'' True),
            d\<lparr>likeSeq := likeSeq d + 1,
              likes := likes d @ [\<lparr>l_id = likeSeq d, l_userId = u, l_artworkId = n\<rparr>]\<rparr>)"
    by (simp add: likeArtwork_def p like_findUnique_Some [OF n] none)
  from uniq nex show "distinct (map (\<lambda>l. (l_userId l, l_artworkId l))
           (likes d @ [\<lparr>l_id = likeSeq d, l_userId = u, l_artworkId = n\<rparr>]))"
    by (auto simp: list_ex_iff)
qed

text \<open>
  Claim C7. For an existing artwork and a store whose likes are unique per user and
  artwork (the unique index), one toggle answers \<^verbatim>\<open>liked: false\<close> and removes the like
  when the user's like exists, and answers \<^verbatim>\<open>liked: true\<close> and creates it when it does
  not; after two toggles in a row the like exists exactly if it did at the start.
\<close>

theorem like_toggle:
  "artwork_findUnique d (parseInt p) = Inr (Some w) \<longrightarrow>
   distinct (map (\<lambda>l. (l_userId l, l_artworkId l)) (likes d)) \<longrightarrow>
     (list_ex (\<lambda>l. l_userId l = u \<and> l_artworkId l = w_id w) (likes d) \<longrightarrow>
        fst (likeArtwork fk d u p) = Resp 200 (LikeJson ''Unliked'' False) \<and>
        \<not> list_ex (\<lambda>l. l_userId l = u \<and> l_artworkId l = w_id w)
             (likes (snd (likeArtwork fk d u p)))) \<and>
     (\<not> list_ex (\<lambda>l. l_userId l = u \<and> l_artworkId l = w_id w) (likes d) \<longrightarrow>
        fst (likeArtwork fk d u p) = Resp 200 (LikeJson ''Liked'' True) \<and>
        list_ex (\<lambda>l. l_userId l = u \<and> l_artworkId l = w_id w)
          (likes (snd (likeArtwork fk d u p)))) \<and>
     list_ex (\<lambda>l. l_userId l = u \<and> l_artworkId l = w_id w)
       (likes (snd (likeArtwork fk (snd (likeArtwork fk d u p)) u p))) =
     list_ex (\<lambda>l. l_userId l = u \<and> l_artworkId l = w_id w) (likes d)"
proof (intro impI)
  let ?P = "\<lambda>l. l_userId l = u \<and> l_artworkId l = w_id w"
  let ?d1 = "snd (likeArtwork fk d u p)"
  assume found: "artwork_findUnique d (parseInt p) = Inr (Some w)"
    and uniq: "distinct (map (\<lambda>l. (l_userId l, l_artworkId l)) (likes d))"
  from found have p: "parseInt p = Some (w_id w)" and n: "int4 (w_id w)"
    and art: "list_ex (\<lambda>x. w_id x = w_id w) (artworks d)"
    by (auto simp: list_ex_iff dest: artwork_findUnique_SomeD)
  show "(list_ex ?P (likes d) \<longrightarrow>
          fst (likeArtwork fk d u p) = Resp 200 (LikeJson ''Unliked'' False) \<and>
          \<not> list_ex ?P (likes ?d1)) \<and>
        (\<not> list_ex ?P (likes d) \<longrightarrow>
          fst (likeArtwork fk d u p) = Resp 200 (LikeJson ''Liked'' True) \<and>
          list_ex ?P (likes ?d1)) \<and>
        list_ex ?P (likes (snd (likeArtwork fk ?d1 u p))) = list_ex ?P (likes d)"
  proof (cases "list_ex ?P (likes d)")
    case True
    note first = unlike_step [OF p n uniq True]
    from first art have art1: "list_ex (\<lambda>x. w_id x = w_id w) (artworks ?d1)"
      by simp
    from first have "\<not> list_ex ?P (likes ?d1)" and
      "distinct (map (\<lambda>l. (l_userId l, l_artworkId l)) (likes ?d1))"
      by simp_all
    from like_step(1) [OF p n art1 this(2) this(1)]
    have "list_ex ?P (likes (snd (likeArtwork fk ?d1 u p)))"
      by simp
    with True first show ?thesis by simp
  next
    case False
    note first = like_step [OF p n art uniq False]
    let ?d2 = "d\<lparr>likeSeq := likeSeq d + 1,
              likes := likes d @ [\<lparr>l_id = likeSeq d, l_userId = u, l_artworkId = w_id w\<rparr>]\<rparr>"
    have ex2: "list_ex ?P (likes ?d2)"
      by simp
    from first(2) have uniq2: "distinct (map (\<lambda>l. (l_userId l, l_artworkId l)) (likes ?d2))"
      by simp
    from unlike_step [OF p n uniq2 ex2]
    have "\<not> list_ex ?P (likes (snd (likeArtwork fk ?d2 u p)))"
      by simp
    with False first(1) show ?thesis by simp
  qed
qed


text \<open>A first like of artwork 5 by user 1, and the toggle back.\<close>

theorem like_toggle_witness:
  "fst (likeArtwork True (emptyDb\<lparr>artworks := [\<lparr>w_id = 5, w_userId = 9\<rparr>]\<rparr>) 1 ''5'') =
     Resp 200 (LikeJson ''Liked'' True) \<and>
   list_ex (\<lambda>l. l_userId l = 1 \<and> l_artworkId l = 5)
     (likes (snd (likeArtwork True (emptyDb\<lparr>artworks := [\<lparr>w_id = 5, w_userId = 9\<rparr>]\<rparr>)
        1 ''5''))) \<and>
   \<not> list_ex (\<lambda>l. l_userId l = 1 \<and> l_artworkId l = 5)
     (likes (snd (likeArtwork True
        (snd (likeArtwork True (emptyDb\<lparr>artworks := [\<lparr>w_id = 5, w_userId = 9\<rparr>]\<rparr>) 1 ''5''))
        1 ''5'')))"
proof -
  let ?W = "\<lparr>w_id = 5, w_userId = 9\<rparr>"
  let ?D = "emptyDb\<lparr>artworks := [?W]\<rparr>"
  have found: "artwork_findUnique ?D (parseInt ''5'') = Inr (Some ?W)"
    by (simp add: eval_defs)
  have uniq: "distinct (map (\<lambda>l. (l_userId l, l_artworkId l)) (likes ?D))"
    by (simp add: emptyDb_def)
  have none: "\<not> list_ex (\<lambda>l. l_userId l = 1 \<and> l_artworkId l = w_id ?W) (likes ?D)"
    by (simp add: emptyDb_def)
  from like_toggle [of ?D "''5''" ?W 1 True] found uniq none
  show ?thesis by simp
qed

section \<open>Joining twice\<close>

text \<open>
  Claim C2. A join by a user who already is an attendee of the session is answered 400
  \<^verbatim>\<open>Already joined this session\<close> and leaves the store as it was. The store itself refuses
  a second row for the same session and user (the unique index), whoever asks for the
  insert, and no store reached from the empty one holds two attendee rows with the same
  session and user.
\<close>

theorem join_twice_conflict:
  "(session_findUnique d (parseInt p) = Inr (Some s) \<longrightarrow>
    list_ex (\<lambda>a. a_userId a = u) (attendeesOf d (s_id s)) \<longrightarrow>
      joinSession d u p = (Resp 400 (Error ''Already joined this session''), d)) \<and>
   (int4 n \<longrightarrow> list_ex (\<lambda>a. a_sessionId a = n \<and> a_userId a = u) (attendees d) \<longrightarrow>
      fst (sessionAttendee_create d (Some n) u) = Inl PrismaUnique \<and>
      attendees (snd (sessionAttendee_create d (Some n) u)) = attendees d) \<and>
   distinct (map (\<lambda>a. (a_sessionId a, a_userId a)) (attendees (run fk emptyDb qs)))"
proof (intro conjI impI)
  assume "session_findUnique d (parseInt p) = Inr (Some s)"
    and "list_ex (\<lambda>a. a_userId a = u) (attendeesOf d (s_id s))"
  then show "joinSession d u p = (Resp 400 (Error ''Already joined this session''), d)"
    by (simp add: joinSession_def)
next
  assume n: "int4 n"
    and ex: "list_ex (\<lambda>a. a_sessionId a = n \<and> a_userId a = u) (attendees d)"
  then show "fst (sessionAttendee_create d (Some n) u) = Inl PrismaUnique"
    and "attendees (snd (sessionAttendee_create d (Some n) u)) = attendees d"
    by (simp_all add: sessionAttendee_create_def prismaInt_Some attendee_insert_def Let_def)
next
  have "store_ok (run fk emptyDb qs)"
    by (rule store_ok_run) (rule store_ok_emptyDb)
  then show "distinct (map (\<lambda>a. (a_sessionId a, a_userId a)) (attendees (run fk emptyDb qs)))"
    by (simp add: store_ok_def)
qed

text \<open>User 2 joins session 1 and asks again.\<close>

theorem join_twice_conflict_witness:
  "joinSession (run True emptyDb
      [CreateSession 1 \<lparr>b_title = Some ''Breathwork'', b_date = Some 1736467200000,
         b_time = Some ''18:00'', b_maxAttendees = ''3''\<rparr>,
       JoinSession 2 ''1'']) 2 ''1'' =
     (Resp 400 (Error ''Already joined this session''),
      run True emptyDb
      [CreateSession 1 \<lparr>b_title = Some ''Breathwork'', b_date = Some 1736467200000,
         b_time = Some ''18:00'', b_maxAttendees = ''3''\<rparr>,
       JoinSession 2 ''1'']) \<and>
   fst (sessionAttendee_create (run True emptyDb
      [CreateSession 1 \<lparr>b_title = Some ''Breathwork'', b_date = Some 1736467200000,
         b_time = Some ''18:00'', b_maxAttendees = ''3''\<rparr>,
       JoinSession 2 ''1'']) (Some 1) 2) = Inl PrismaUnique"
proof -
  let ?B = "\<lparr>b_title = Some ''Breathwork'', b_date = Some 1736467200000,
         b_time = Some ''18:00'', b_maxAttendees = ''3''\<rparr>"
  let ?S = "\<lparr>s_id = 1, s_title = ''Breathwork'', s_date = 1736467200000, s_time = ''18:00'',
       s_maxAttendees = 3, s_userId = 1\<rparr>"
  let ?D = "\<lparr>sessions = [?S],
      attendees = [\<lparr>a_id = 1, a_sessionId = 1, a_userId = 1\<rparr>,
                   \<lparr>a_id = 2, a_sessionId = 1, a_userId = 2\<rparr>],
      artworks = [], likes = [], comments = [], sessionSeq = 2, attendeeSeq = 3, likeSeq = 1\<rparr>"
  have run: "run True emptyDb [CreateSession 1 ?B, JoinSession 2 ''1''] = ?D"
    by (simp add: eval_defs)
  have found: "session_findUnique ?D (parseInt ''1'') = Inr (Some ?S)"
    by (simp add: eval_defs)
  have joined: "list_ex (\<lambda>a. a_userId a = 2) (attendeesOf ?D (s_id ?S))"
    by (simp add: attendeesOf_def)
  have row: "list_ex (\<lambda>a. a_sessionId a = 1 \<and> a_userId a = 2) (attendees ?D)"
    by simp
  have n: "int4 1"
    by (simp add: int4_def)
  from join_twice_conflict [of ?D "''1''" ?S 2 1] found joined row n
  show ?thesis
    unfolding run by simp
qed

section \<open>The creator of a session\<close>

text \<open>
  Claim C3. In every store reached from the empty one, the creator of every session is
  among its attendees. A create-session that answers 200 has added the session and, in the
  same write, the attendee row of its creator, and the attendee list it returns is that one
  row. A leave asked by the creator of the session is answered 400
  \<^verbatim>\<open>Cannot leave a session you created\<close> and leaves the store as it was.
\<close>

theorem creator_stays_enrolled:
  "list_all (\<lambda>s. list_ex (\<lambda>a. a_userId a = s_userId s)
                (attendeesOf (run fk emptyDb qs) (s_id s)))
     (sessions (run fk emptyDb qs)) \<and>
   (createSession (run fk emptyDb qs) u b = (Resp 200 bd, d') \<longrightarrow>
      (\<exists>s a. bd = SessionJson s [a] \<and> s_userId s = u \<and> a_userId a = u \<and>
         a_sessionId a = s_id s \<and>
         sessions d' = sessions (run fk emptyDb qs) @ [s] \<and>
         attendees d' = attendees (run fk emptyDb qs) @ [a])) \<and>
   (session_findUnique d (parseInt p) = Inr (Some s) \<longrightarrow> s_userId s = u \<longrightarrow>
      leaveSession d u p = (Resp 400 (Error ''Cannot leave a session you created''), d))"
proof (intro conjI impI)
  have ok: "store_ok (run fk emptyDb qs)"
    by (rule store_ok_run) (rule store_ok_emptyDb)
  have "creator_enrolled (run fk emptyDb qs)"
  proof (rule creator_enrolled_run)
    show "store_ok emptyDb" by (rule store_ok_emptyDb)
    show "creator_enrolled emptyDb" by (simp add: creator_enrolled_def emptyDb_def)
  qed
  then show "list_all (\<lambda>s. list_ex (\<lambda>a. a_userId a = s_userId s)
                (attendeesOf (run fk emptyDb qs) (s_id s)))
     (sessions (run fk emptyDb qs))"
    by (simp add: creator_enrolled_def)
  assume "createSession (run fk emptyDb qs) u b = (Resp 200 bd, d')"
  with ok show "\<exists>s a. bd = SessionJson s [a] \<and> s_userId s = u \<and> a_userId a = u \<and>
         a_sessionId a = s_id s \<and>
         sessions d' = sessions (run fk emptyDb qs) @ [s] \<and>
         attendees d' = attendees (run fk emptyDb qs) @ [a]"
    by (rule createSession_200)
next
  assume "session_findUnique d (parseInt p) = Inr (Some s)" and "s_userId s = u"
  then show "leaveSession d u p = (Resp 400 (Error ''Cannot leave a session you created''), d)"
    by (simp add: leaveSession_def read_userId_def)
qed

text \<open>
  The creator of session 1 tries to leave it after user 2 has joined, and opens a second
  session.
\<close>

theorem creator_stays_enrolled_witness:
  "list_ex (\<lambda>a. a_userId a = 1) (attendeesOf (run True emptyDb
      [CreateSession 1 \<lparr>b_title = Some ''Breathwork'', b_date = Some 1736467200000,
         b_time = Some ''18:00'', b_maxAttendees = ''2''\<rparr>,
       JoinSession 2 ''1'', LeaveSession 1 ''1'']) 1) \<and>
   fst (createSession (run True emptyDb
      [CreateSession 1 \<lparr>b_title = Some ''Breathwork'', b_date = Some 1736467200000,
         b_time = Some ''18:00'', b_maxAttendees = ''2''\<rparr>,
       JoinSession 2 ''1'', LeaveSession 1 ''1''])
      1 \<lparr>b_title = Some ''Breathwork'', b_date = Some 1736467200000,
         b_time = Some ''18:00'', b_maxAttendees = ''2''\<rparr>) =
     Resp 200 (SessionJson
       \<lparr>s_id = 2, s_title = ''Breathwork'', s_date = 1736467200000, s_time = ''18:00'',
         s_maxAttendees = 2, s_userId = 1\<rparr>
       [\<lparr>a_id = 3, a_sessionId = 2, a_userId = 1\<rparr>]) \<and>
   leaveSession (run True emptyDb
      [CreateSession 1 \<lparr>b_title = Some ''Breathwork'', b_date = Some 1736467200000,
         b_time = Some ''18:00'', b_maxAttendees = ''2''\<rparr>,
       JoinSession 2 ''1'', LeaveSession 1 ''1'']) 1 ''1'' =
     (Resp 400 (Error ''Cannot leave a session you created''),
      run True emptyDb
      [CreateSession 1 \<lparr>b_title = Some ''Breathwork'', b_date = Some 1736467200000,
         b_time = Some ''18:00'', b_maxAttendees = ''2''\<rparr>,
       JoinSession 2 ''1'', LeaveSession 1 ''1''])"
proof -
  let ?B = "\<lparr>b_title = Some ''Breathwork'', b_date = Some 1736467200000,
         b_time = Some ''18:00'', b_maxAttendees = ''2''\<rparr>"
  let ?S = "\<lparr>s_id = 1, s_title = ''Breathwork'', s_date = 1736467200000, s_time = ''18:00'',
       s_maxAttendees = 2, s_userId = 1\<rparr>"
  let ?S2 = "\<lparr>s_id = 2, s_title = ''Breathwork'', s_date = 1736467200000, s_time = ''18:00'',
       s_maxAttendees = 2, s_userId = 1\<rparr>"
  let ?A3 = "\<lparr>a_id = 3, a_sessionId = 2, a_userId = 1\<rparr>"
  let ?D = "\<lparr>sessions = [?S],
      attendees = [\<lparr>a_id = 1, a_sessionId = 1, a_userId = 1\<rparr>,
                   \<lparr>a_id = 2, a_sessionId = 1, a_userId = 2\<rparr>],
      artworks = [], likes = [], comments = [], sessionSeq = 2, attendeeSeq = 3, likeSeq = 1\<rparr>"
  let ?D2 = "\<lparr>sessions = [?S, ?S2],
      attendees = [\<lparr>a_id = 1, a_sessionId = 1, a_userId = 1\<rparr>,
                   \<lparr>a_id = 2, a_sessionId = 1, a_userId = 2\<rparr>, ?A3],
      artworks = [], likes = [], comments = [], sessionSeq = 3, attendeeSeq = 4, likeSeq = 1\<rparr>"
  have run: "run True emptyDb [CreateSession 1 ?B, JoinSession 2 ''1'', LeaveSession 1 ''1''] = ?D"
    by (simp add: eval_defs)
  have created: "createSession ?D 1 ?B = (Resp 200 (SessionJson ?S2 [?A3]), ?D2)"
    by (simp add: eval_defs)
  have found: "session_findUnique ?D (parseInt ''1'') = Inr (Some ?S)"
    by (simp add: eval_defs)
  have creator: "s_userId ?S = 1"
    by simp
  from creator_stays_enrolled
    [of True "[CreateSession 1 ?B, JoinSession 2 ''1'', LeaveSession 1 ''1'']" 1 ?B
      "SessionJson ?S2 [?A3]" ?D2 ?D "''1''" ?S]
    found creator created
  show ?thesis
    unfolding run by simp
qed

section \<open>Leaving a session that does not exist\<close>

text \<open>
  Claim C4. The leave handler reads the creator of the session it looked up without testing
  that a session was found. For an identifier that finds no session the read throws, and the
  answer is 500 \<^verbatim>\<open>Failed to leave session\<close>, where the join and delete handlers answer
  404 \<^verbatim>\<open>Session not found\<close>.
\<close>

theorem leave_missing_session_500:
  "session_findUnique d (parseInt p) = Inr None \<longrightarrow>
     leaveSession d u p = (Resp 500 (Error ''Failed to leave session''), d) \<and>
     joinSession d u p = (Resp 404 (Error ''Session not found''), d) \<and>
     deleteSession d u p = (Resp 404 (Error ''Session not found''), d)"
  by (simp add: leaveSession_def read_userId_def joinSession_def deleteSession_def)

text \<open>Session 7 in the empty store.\<close>

theorem leave_missing_session_500_witness:
  "leaveSession emptyDb 2 ''7'' = (Resp 500 (Error ''Failed to leave session''), emptyDb) \<and>
   joinSession emptyDb 2 ''7'' = (Resp 404 (Error ''Session not found''), emptyDb)"
proof -
  have "session_findUnique emptyDb (parseInt ''7'') = Inr None"
    by (simp add: eval_defs)
  with leave_missing_session_500 [of emptyDb "''7''" 2]
  show ?thesis by simp
qed

section \<open>Creating a session\<close>

text \<open>
  Claim C5, as amended. The create-session handler does not validate the capacity. When
  \<^verbatim>\<open>parseInt\<close> of the capacity field is an integer that fits the \<^verbatim>\<open>INTEGER\<close> column, positive
  or not, and the store takes the title, the date and the time (strings without a NUL
  character, a valid date with a year of four digits), the answer is 200 and the store
  gains one session with the given title, date and time and the parsed capacity, together
  with the attendee row of its creator. When \<^verbatim>\<open>parseInt\<close> gives \<^verbatim>\<open>NaN\<close> or an integer that
  does not fit, the answer is 500 \<^verbatim>\<open>Failed to create session: ...\<close> and the store is left
  as it was.
\<close>

theorem createSession_no_capacity_check:
  "(store_ok d \<longrightarrow> prismaText (b_title b) = Inr t \<longrightarrow> prismaDate (b_date b) = Inr dt \<longrightarrow>
    prismaText (b_time b) = Inr tm \<longrightarrow>
    parseInt (b_maxAttendees b) = Some n \<longrightarrow> int4 n \<longrightarrow>
      createSession d u b =
        (Resp 200 (SessionJson
           \<lparr>s_id = sessionSeq d, s_title = t, s_date = dt, s_time = tm,
             s_maxAttendees = n, s_userId = u\<rparr>
           [\<lparr>a_id = attendeeSeq d, a_sessionId = sessionSeq d, a_userId = u\<rparr>]),
         d\<lparr>sessionSeq := sessionSeq d + 1,
           sessions := sessions d @
             [\<lparr>s_id = sessionSeq d, s_title = t, s_date = dt, s_time = tm,
               s_maxAttendees = n, s_userId = u\<rparr>],
           attendeeSeq := attendeeSeq d + 1,
           attendees := attendees d @
             [\<lparr>a_id = attendeeSeq d, a_sessionId = sessionSeq d, a_userId = u\<rparr>]\<rparr>)) \<and>
   (prismaInt (parseInt (b_maxAttendees b)) = Inl e \<longrightarrow>
      createSession d u b =
        (Resp 500 (ErrorWith ''Failed to create session: '' PrismaValidation), d))"
proof (intro conjI impI)
  assume ok: "store_ok d" and b: "prismaText (b_title b) = Inr t"
    "prismaDate (b_date b) = Inr dt" "prismaText (b_time b) = Inr tm"
    and n: "parseInt (b_maxAttendees b) = Some n" "int4 n"
  have fresh: "filter (\<lambda>a. a_sessionId a = sessionSeq d) (attendees d) = []"
    by (rule no_attendee_of_fresh_id [OF ok])
  then have "\<not> list_ex (\<lambda>a. a_sessionId a = sessionSeq d \<and> a_userId a = u) (attendees d)"
    by (auto simp: list_ex_iff filter_empty_conv)
  with b n fresh show "createSession d u b =
        (Resp 200 (SessionJson
           \<lparr>s_id = sessionSeq d, s_title = t, s_date = dt, s_time = tm,
             s_maxAttendees = n, s_userId = u\<rparr>
           [\<lparr>a_id = attendeeSeq d, a_sessionId = sessionSeq d, a_userId = u\<rparr>]),
         d\<lparr>sessionSeq := sessionSeq d + 1,
           sessions := sessions d @
             [\<lparr>s_id = sessionSeq d, s_title = t, s_date = dt, s_time = tm,
               s_maxAttendees = n, s_userId = u\<rparr>],
           attendeeSeq := attendeeSeq d + 1,
           attendees := attendees d @
             [\<lparr>a_id = attendeeSeq d, a_sessionId = sessionSeq d, a_userId = u\<rparr>]\<rparr>)"
    by (simp add: createSession_def session_create_def prismaInt_Some attendee_insert_def
        Let_def sessionJson_def attendeesOf_def)
next
  assume "prismaInt (parseInt (b_maxAttendees b)) = Inl e"
  then show "createSession d u b =
        (Resp 500 (ErrorWith ''Failed to create session: '' PrismaValidation), d)"
    by (simp add: createSession_def session_create_def split: sum.splits)
qed

text \<open>A session for two in the empty store, and a capacity that is not a number.\<close>

theorem createSession_no_capacity_check_witness:
  "createSession emptyDb 1
      \<lparr>b_title = Some ''Breathwork'', b_date = Some 1736467200000,
        b_time = Some ''18:00'', b_maxAttendees = ''2''\<rparr> =
     (Resp 200 (SessionJson
        \<lparr>s_id = 1, s_title = ''Breathwork'', s_date = 1736467200000, s_time = ''18:00'',
          s_maxAttendees = 2, s_userId = 1\<rparr>
        [\<lparr>a_id = 1, a_sessionId = 1, a_userId = 1\<rparr>]),
      \<lparr>sessions =
         [\<lparr>s_id = 1, s_title = ''Breathwork'', s_date = 1736467200000, s_time = ''18:00'',
           s_maxAttendees = 2, s_userId = 1\<rparr>],
       attendees = [\<lparr>a_id = 1, a_sessionId = 1, a_userId = 1\<rparr>],
       artworks = [], likes = [], comments = [],
       sessionSeq = 2, attendeeSeq = 2, likeSeq = 1\<rparr>) \<and>
   createSession emptyDb 1
      \<lparr>b_title = Some ''Breathwork'', b_date = Some 1736467200000,
        b_time = Some ''18:00'', b_maxAttendees = ''many''\<rparr> =
     (Resp 500 (ErrorWith ''Failed to create session: '' PrismaValidation), emptyDb)"
proof -
  let ?B = "\<lparr>b_title = Some ''Breathwork'', b_date = Some 1736467200000,
        b_time = Some ''18:00'', b_maxAttendees = ''2''\<rparr>"
  let ?N = "\<lparr>b_title = Some ''Breathwork'', b_date = Some 1736467200000,
        b_time = Some ''18:00'', b_maxAttendees = ''many''\<rparr>"
  have title: "prismaText (b_title ?B) = Inr ''Breathwork''"
    by (simp add: eval_defs)
  have date: "prismaDate (b_date ?B) = Inr 1736467200000"
    by (simp add: eval_defs)
  have time: "prismaText (b_time ?B) = Inr ''18:00''"
    by (simp add: eval_defs)
  have two: "parseInt (b_maxAttendees ?B) = Some 2"
    by (simp add: eval_defs)
  have fits: "int4 2"
    by (simp add: int4_def)
  have nan: "prismaInt (parseInt (b_maxAttendees ?N)) = Inl PrismaValidation"
    by (simp add: eval_defs)
  from createSession_no_capacity_check
      [of emptyDb ?B "''Breathwork''" 1736467200000 "''18:00''" 2 1 PrismaValidation]
    store_ok_emptyDb title date time two fits
  have first: "createSession emptyDb 1 ?B =
     (Resp 200 (SessionJson
        \<lparr>s_id = 1, s_title = ''Breathwork'', s_date = 1736467200000, s_time = ''18:00'',
          s_maxAttendees = 2, s_userId = 1\<rparr>
        [\<lparr>a_id = 1, a_sessionId = 1, a_userId = 1\<rparr>]),
      \<lparr>sessions =
         [\<lparr>s_id = 1, s_title = ''Breathwork'', s_date = 1736467200000, s_time = ''18:00'',
           s_maxAttendees = 2, s_userId = 1\<rparr>],
       attendees = [\<lparr>a_id = 1, a_sessionId = 1, a_userId = 1\<rparr>],
       artworks = [], likes = [], comments = [],
       sessionSeq = 2, attendeeSeq = 2, likeSeq = 1\<rparr>)"
    by (simp add: emptyDb_def)
  from createSession_no_capacity_check
      [of emptyDb ?N "''Breathwork''" 1736467200000 "''18:00''" 2 1 PrismaValidation] nan
  have "createSession emptyDb 1 ?N =
     (Resp 500 (ErrorWith ''Failed to create session: '' PrismaValidation), emptyDb)"
    by simp
  with first show ?thesis by simp
qed

text \<open>
  The claim as first stated fails twice. The capacity 0 is not a positive integer: the
  answer is 200, and the session and the attendee row of its creator are stored. The
  capacity \<^verbatim>\<open>many\<close> is not a number: nothing is stored, but the answer is the 500 of the
  \<^verbatim>\<open>catch\<close> block, where a validation error is a 400.
\<close>

theorem create_zero_capacity_counterexample:
  "createSession emptyDb 1
      \<lparr>b_title = Some ''Breathwork'', b_date = Some 1736467200000,
        b_time = Some ''18:00'', b_maxAttendees = ''0''\<rparr> =
     (Resp 200 (SessionJson
        \<lparr>s_id = 1, s_title = ''Breathwork'', s_date = 1736467200000, s_time = ''18:00'',
          s_maxAttendees = 0, s_userId = 1\<rparr>
        [\<lparr>a_id = 1, a_sessionId = 1, a_userId = 1\<rparr>]),
      \<lparr>sessions =
         [\<lparr>s_id = 1, s_title = ''Breathwork'', s_date = 1736467200000, s_time = ''18:00'',
           s_maxAttendees = 0, s_userId = 1\<rparr>],
       attendees = [\<lparr>a_id = 1, a_sessionId = 1, a_userId = 1\<rparr>],
       artworks = [], likes = [], comments = [],
       sessionSeq = 2, attendeeSeq = 2, likeSeq = 1\<rparr>) \<and>
   createSession emptyDb 1
      \<lparr>b_title = Some ''Breathwork'', b_date = Some 1736467200000,
        b_time = Some ''18:00'', b_maxAttendees = ''many''\<rparr> =
     (Resp 500 (ErrorWith ''Failed to create session: '' PrismaValidation), emptyDb)"
  by (simp add: eval_defs)

section \<open>Liking an artwork that does not exist\<close>

lemma artwork_findUnique_NoneD:
  assumes "artwork_findUnique d (Some n) = Inr None"
  shows "int4 n" and "\<not> list_ex (\<lambda>w. w_id w = n) (artworks d)"
proof -
  from assms show "int4 n"
    by (simp add: artwork_findUnique_def prismaInt_Some split: if_splits)
  with assms have "find (\<lambda>w. w_id w = n) (artworks d) = None"
    by (simp add: artwork_findUnique_def prismaInt_Some)
  then show "\<not> list_ex (\<lambda>w. w_id w = n) (artworks d)"
    by (simp add: find_None_iff list_ex_iff)
qed

text \<open>
  Claim C6, as amended. The like handler never looks the artwork up and never answers 404.
  For an identifier that finds no artwork, and a user with no like stored for it, the
  handler attempts the insert: a store that holds the foreign key refuses it, and the answer
  is 500 \<^verbatim>\<open>Server error: ...\<close> with the Like table as it was; a store without the foreign
  key accepts it, and the answer is 200 \<^verbatim>\<open>Liked\<close>.
\<close>

theorem like_never_not_found:
  "status (fst (likeArtwork fk d u p)) \<noteq> 404 \<and>
   (artwork_findUnique d (parseInt p) = Inr None \<longrightarrow> parseInt p = Some n \<longrightarrow>
    \<not> list_ex (\<lambda>l. l_userId l = u \<and> l_artworkId l = n) (likes d) \<longrightarrow>
      likeArtwork fk d u p =
        (if fk
         then (Resp 500 (ErrorWith ''Server error: '' PrismaForeignKey),
               d\<lparr>likeSeq := likeSeq d + 1\<rparr>)
         else (Resp 200 (LikeJson ''Liked'' True),
               d\<lparr>likeSeq := likeSeq d + 1,
                 likes := likes d @ [\<lparr>l_id = likeSeq d, l_userId = u, l_artworkId = n\<rparr>]\<rparr>)))"
proof (intro conjI impI)
  show "status (fst (likeArtwork fk d u p)) \<noteq> 404"
    by (simp add: likeArtwork_def Let_def split: sum.splits option.splits prod.splits)
next
  assume missing: "artwork_findUnique d (parseInt p) = Inr None"
    and p: "parseInt p = Some n"
    and nex: "\<not> list_ex (\<lambda>l. l_userId l = u \<and> l_artworkId l = n) (likes d)"
  from missing p have n: "int4 n" and art: "\<not> list_ex (\<lambda>w. w_id w = n) (artworks d)"
    by (simp_all add: artwork_findUnique_NoneD)
  from nex have none: "find (\<lambda>l. l_userId l = u \<and> l_artworkId l = n) (likes d) = None"
    by (auto simp: find_None_iff list_ex_iff)
  from nex art show "likeArtwork fk d u p =
        (if fk
         then (Resp 500 (ErrorWith ''Server error: '' PrismaForeignKey),
               d\<lparr>likeSeq := likeSeq d + 1\<rparr>)
         else (Resp 200 (LikeJson ''Liked'' True),
               d\<lparr>likeSeq := likeSeq d + 1,
                 likes := likes d @ [\<lparr>l_id = likeSeq d, l_userId = u, l_artworkId = n\<rparr>]\<rparr>))"
    by (simp add: likeArtwork_def p like_findUnique_Some [OF n] none like_create_def
        prismaInt_Some n Let_def)
qed

text \<open>User 1 likes artwork 5 in a store without artworks, with the foreign key.\<close>

theorem like_never_not_found_witness:
  "likeArtwork True emptyDb 1 ''5'' =
     (Resp 500 (ErrorWith ''Server error: '' PrismaForeignKey), emptyDb\<lparr>likeSeq := 2\<rparr>)"
proof -
  have missing: "artwork_findUnique emptyDb (parseInt ''5'') = Inr None"
    by (simp add: eval_defs)
  have p: "parseInt ''5'' = Some 5"
    by (simp add: eval_defs)
  have nex: "\<not> list_ex (\<lambda>l. l_userId l = 1 \<and> l_artworkId l = 5) (likes emptyDb)"
    by (simp add: emptyDb_def)
  from like_never_not_found [of True emptyDb 1 "''5''" 5] missing p nex
  show ?thesis by (simp add: emptyDb_def)
qed

text \<open>
  The claim as first stated fails in the empty store, where artwork 5 does not exist: with
  the foreign key the answer is 500, without it 200 and a like of the missing artwork is
  stored; it is 404 in neither case.
\<close>

theorem like_missing_artwork_counterexample:
  "artwork_findUnique emptyDb (parseInt ''5'') = Inr None \<and>
   fst (likeArtwork True emptyDb 1 ''5'') =
     Resp 500 (ErrorWith ''Server error: '' PrismaForeignKey) \<and>
   likeArtwork False emptyDb 1 ''5'' =
     (Resp 200 (LikeJson ''Liked'' True),
      emptyDb\<lparr>likeSeq := 2, likes := [\<lparr>l_id = 1, l_userId = 1, l_artworkId = 5\<rparr>]\<rparr>)"
  by (simp add: eval_defs)

section \<open>Deleting a session\<close>

lemma find_filtered_out: "find (\<lambda>s. s_id s = n) (filter (\<lambda>x. s_id x \<noteq> n) xs) = None"
  by (simp add: find_None_iff)

text \<open>
  Claim C8. For an existing session, a delete asked by someone other than its creator is
  answered 403 and leaves the store as it was, so the session and its attendee rows are
  still there. A delete asked by the creator is answered 200; it removes the attendee rows
  of the session and the session, and nothing else; afterwards the session is not found,
  and a join to it is answered 404. A delete of an identifier that finds no session is
  answered 404 and leaves the store as it was.
\<close>

theorem deleteSession_outcomes:
  "(session_findUnique d (parseInt p) = Inr (Some s) \<longrightarrow> s_userId s \<noteq> u \<longrightarrow>
      deleteSession d u p =
        (Resp 403 (Error ''You can only delete your own sessions''), d)) \<and>
   (session_findUnique d (parseInt p) = Inr (Some s) \<longrightarrow> s_userId s = u \<longrightarrow>
      deleteSession d u p =
        (Resp 200 (Message ''Session deleted successfully''),
         d\<lparr>attendees := filter (\<lambda>a. a_sessionId a \<noteq> s_id s) (attendees d),
           sessions := filter (\<lambda>x. s_id x \<noteq> s_id s) (sessions d)\<rparr>) \<and>
      attendeesOf (snd (deleteSession d u p)) (s_id s) = [] \<and>
      session_findUnique (snd (deleteSession d u p)) (parseInt p) = Inr None \<and>
      fst (joinSession (snd (deleteSession d u p)) v p) =
        Resp 404 (Error ''Session not found'')) \<and>
   (session_findUnique d (parseInt p) = Inr None \<longrightarrow>
      deleteSession d u p = (Resp 404 (Error ''Session not found''), d))"
proof (intro conjI impI)
  assume "session_findUnique d (parseInt p) = Inr (Some s)" and "s_userId s \<noteq> u"
  then show "deleteSession d u p =
        (Resp 403 (Error ''You can only delete your own sessions''), d)"
    by (simp add: deleteSession_def)
next
  assume "session_findUnique d (parseInt p) = Inr None"
  then show "deleteSession d u p = (Resp 404 (Error ''Session not found''), d)"
    by (simp add: deleteSession_def)
next
  assume found: "session_findUnique d (parseInt p) = Inr (Some s)" and own: "s_userId s = u"
  from found have p: "parseInt p = Some (s_id s)" and n: "int4 (s_id s)"
    and s: "s \<in> set (sessions d)"
    by (auto simp: session_findUnique_Inr dest: find_sessionD [OF sym])
  from s have there: "list_ex (\<lambda>x. s_id x = s_id s) (sessions d)"
    by (auto simp: list_ex_iff)
  from found own there show del: "deleteSession d u p =
        (Resp 200 (Message ''Session deleted successfully''),
         d\<lparr>attendees := filter (\<lambda>a. a_sessionId a \<noteq> s_id s) (attendees d),
           sessions := filter (\<lambda>x. s_id x \<noteq> s_id s) (sessions d)\<rparr>)"
    by (simp add: deleteSession_def p sessionAttendee_deleteMany_def session_delete_def
        prismaInt_Some n)
  show "attendeesOf (snd (deleteSession d u p)) (s_id s) = []"
    by (simp add: del attendeesOf_def filter_empty_conv)
  show gone: "session_findUnique (snd (deleteSession d u p)) (parseInt p) = Inr None"
    by (simp add: del p session_findUnique_def prismaInt_Some n find_filtered_out)
  then show "fst (joinSession (snd (deleteSession d u p)) v p) =
        Resp 404 (Error ''Session not found'')"
    by (simp add: joinSession_def)
qed

text \<open>
  User 2 and then the creator ask to delete session 1, in which both are enrolled; user 2
  asks to delete session 7, which does not exist.
\<close>

theorem deleteSession_outcomes_witness:
  "deleteSession (run True emptyDb
      [CreateSession 1 \<lparr>b_title = Some ''Breathwork'', b_date = Some 1736467200000,
         b_time = Some ''18:00'', b_maxAttendees = ''2''\<rparr>,
       JoinSession 2 ''1'']) 2 ''1'' =
     (Resp 403 (Error ''You can only delete your own sessions''),
      run True emptyDb
      [CreateSession 1 \<lparr>b_title = Some ''Breathwork'', b_date = Some 1736467200000,
         b_time = Some ''18:00'', b_maxAttendees = ''2''\<rparr>,
       JoinSession 2 ''1'']) \<and>
   deleteSession (run True emptyDb
      [CreateSession 1 \<lparr>b_title = Some ''Breathwork'', b_date = Some 1736467200000,
         b_time = Some ''18:00'', b_maxAttendees = ''2''\<rparr>,
       JoinSession 2 ''1'']) 1 ''1'' =
     (Resp 200 (Message ''Session deleted successfully''),
      \<lparr>sessions = [], attendees = [], artworks = [], likes = [], comments = [],
        sessionSeq = 2, attendeeSeq = 3, likeSeq = 1\<rparr>) \<and>
   deleteSession (run True emptyDb
      [CreateSession 1 \<lparr>b_title = Some ''Breathwork'', b_date = Some 1736467200000,
         b_time = Some ''18:00'', b_maxAttendees = ''2''\<rparr>,
       JoinSession 2 ''1'']) 2 ''7'' =
     (Resp 404 (Error ''Session not found''),
      run True emptyDb
      [CreateSession 1 \<lparr>b_title = Some ''Breathwork'', b_date = Some 1736467200000,
         b_time = Some ''18:00'', b_maxAttendees = ''2''\<rparr>,
       JoinSession 2 ''1''])"
proof -
  let ?B = "\<lparr>b_title = Some ''Breathwork'', b_date = Some 1736467200000,
         b_time = Some ''18:00'', b_maxAttendees = ''2''\<rparr>"
  let ?S = "\<lparr>s_id = 1, s_title = ''Breathwork'', s_date = 1736467200000, s_time = ''18:00'',
       s_maxAttendees = 2, s_userId = 1\<rparr>"
  let ?D = "\<lparr>sessions = [?S],
      attendees = [\<lparr>a_id = 1, a_sessionId = 1, a_userId = 1\<rparr>,
                   \<lparr>a_id = 2, a_sessionId = 1, a_userId = 2\<rparr>],
      artworks = [], likes = [], comments = [], sessionSeq = 2, attendeeSeq = 3, likeSeq = 1\<rparr>"
  have run: "run True emptyDb [CreateSession 1 ?B, JoinSession 2 ''1''] = ?D"
    by (simp add: eval_defs)
  have found: "session_findUnique ?D (parseInt ''1'') = Inr (Some ?S)"
    by (simp add: eval_defs)
  have missing: "session_findUnique ?D (parseInt ''7'') = Inr None"
    by (simp add: eval_defs)
  from deleteSession_outcomes [of ?D "''1''" ?S 2] found
  have other: "deleteSession ?D 2 ''1'' =
      (Resp 403 (Error ''You can only delete your own sessions''), ?D)"
    by simp
  from deleteSession_outcomes [of ?D "''1''" ?S 1] found
  have owner: "deleteSession ?D 1 ''1'' =
     (Resp 200 (Message ''Session deleted successfully''),
      \<lparr>sessions = [], attendees = [], artworks = [], likes = [], comments = [],
        sessionSeq = 2, attendeeSeq = 3, likeSeq = 1\<rparr>)"
    by simp
  from deleteSession_outcomes [of ?D "''7''" _ 2] missing
  have "deleteSession ?D 2 ''7'' = (Resp 404 (Error ''Session not found''), ?D)"
    by simp
  with other owner show ?thesis
    unfolding run by simp
qed

section \<open>Leaving a session one never joined\<close>

text \<open>
  Claim C9. For an existing session, a leave asked by a user who is neither its creator nor
  among its attendees is answered 200 with the session and its attendee list as they are,
  and leaves the store as it was.
\<close>

theorem leave_non_member_noop:
  "session_findUnique d (parseInt p) = Inr (Some s) \<longrightarrow> s_userId s \<noteq> u \<longrightarrow>
   \<not> list_ex (\<lambda>a. a_userId a = u) (attendeesOf d (s_id s)) \<longrightarrow>
     leaveSession d u p = (Resp 200 (SessionJson s (attendeesOf d (s_id s))), d)"
proof (intro impI)
  assume found: "session_findUnique d (parseInt p) = Inr (Some s)" and other: "s_userId s \<noteq> u"
    and absent: "\<not> list_ex (\<lambda>a. a_userId a = u) (attendeesOf d (s_id s))"
  from found have p: "parseInt p = Some (s_id s)" and n: "int4 (s_id s)"
    by (auto simp: session_findUnique_Inr dest: find_sessionD [OF sym])
  from absent have "filter (\<lambda>a. \<not> (a_sessionId a = s_id s \<and> a_userId a = u)) (attendees d) =
      attendees d"
    by (auto simp: list_ex_iff attendeesOf_def filter_id_conv)
  then have same: "sessionAttendee_deleteMany_pair d (Some (s_id s)) u = Inr d"
    by (simp add: sessionAttendee_deleteMany_pair_def prismaInt_Some n)
  from found other show "leaveSession d u p =
      (Resp 200 (SessionJson s (attendeesOf d (s_id s))), d)"
    by (simp add: leaveSession_def read_userId_def p same sessionJson_def)
qed

text \<open>User 3, who never joined session 1, asks to leave it.\<close>

theorem leave_non_member_noop_witness:
  "leaveSession (run True emptyDb
      [CreateSession 1 \<lparr>b_title = Some ''Breathwork'', b_date = Some 1736467200000,
         b_time = Some ''18:00'', b_maxAttendees = ''2''\<rparr>,
       JoinSession 2 ''1'']) 3 ''1'' =
     (Resp 200 (SessionJson
        \<lparr>s_id = 1, s_title = ''Breathwork'', s_date = 1736467200000, s_time = ''18:00'',
          s_maxAttendees = 2, s_userId = 1\<rparr>
        [\<lparr>a_id = 1, a_sessionId = 1, a_userId = 1\<rparr>,
         \<lparr>a_id = 2, a_sessionId = 1, a_userId = 2\<rparr>]),
      run True emptyDb
      [CreateSession 1 \<lparr>b_title = Some ''Breathwork'', b_date = Some 1736467200000,
         b_time = Some ''18:00'', b_maxAttendees = ''2''\<rparr>,
       JoinSession 2 ''1''])"
proof -
  let ?B = "\<lparr>b_title = Some ''Breathwork'', b_date = Some 1736467200000,
         b_time = Some ''18:00'', b_maxAttendees = ''2''\<rparr>"
  let ?S = "\<lparr>s_id = 1, s_title = ''Breathwork'', s_date = 1736467200000, s_time = ''18:00'',
       s_maxAttendees = 2, s_userId = 1\<rparr>"
  let ?D = "\<lparr>sessions = [?S],
      attendees = [\<lparr>a_id = 1, a_sessionId = 1, a_userId = 1\<rparr>,
                   \<lparr>a_id = 2, a_sessionId = 1, a_userId = 2\<rparr>],
      artworks = [], likes = [], comments = [], sessionSeq = 2, attendeeSeq = 3, likeSeq = 1\<rparr>"
  have run: "run True emptyDb [CreateSession 1 ?B, JoinSession 2 ''1''] = ?D"
    by (simp add: eval_defs)
  have found: "session_findUnique ?D (parseInt ''1'') = Inr (Some ?S)"
    by (simp add: eval_defs)
  have absent: "\<not> list_ex (\<lambda>a. a_userId a = 3) (attendeesOf ?D (s_id ?S))"
    by (simp add: attendeesOf_def)
  from leave_non_member_noop [of ?D "''1''" ?S 3] found absent
  show ?thesis
    unfolding run by (simp add: attendeesOf_def)
qed

section \<open>Deleting an artwork\<close>

text \<open>
  Claim C10. A delete of an existing artwork asked by its owner is answered 200. It first
  removes every like of the artwork, then every comment on it, and only then the artwork:
  the last step runs on a store that still holds the artwork and no like or comment of it.
  Afterwards no like, comment or artwork row with that identifier is left, and the rows of
  other artworks are untouched. When the artwork is not found the answer is 404, when the
  caller is not its owner 403, and in both cases the store is left as it was.
\<close>

theorem deleteArtwork_outcomes:
  "(artwork_findUnique d (parseInt p) = Inr (Some w) \<longrightarrow> w_userId w = u \<longrightarrow>
      deleteArtwork d u p =
        (Resp 200 (Message ''Artwork deleted successfully''),
         d\<lparr>likes := filter (\<lambda>l. l_artworkId l \<noteq> w_id w) (likes d),
           comments := filter (\<lambda>c. c_artworkId c \<noteq> w_id w) (comments d),
           artworks := filter (\<lambda>x. w_id x \<noteq> w_id w) (artworks d)\<rparr>) \<and>
      artwork_delete
         (d\<lparr>likes := filter (\<lambda>l. l_artworkId l \<noteq> w_id w) (likes d),
           comments := filter (\<lambda>c. c_artworkId c \<noteq> w_id w) (comments d)\<rparr>) (parseInt p) =
        Inr (snd (deleteArtwork d u p)) \<and>
      \<not> list_ex (\<lambda>l. l_artworkId l = w_id w) (likes (snd (deleteArtwork d u p))) \<and>
      \<not> list_ex (\<lambda>c. c_artworkId c = w_id w) (comments (snd (deleteArtwork d u p))) \<and>
      \<not> list_ex (\<lambda>x. w_id x = w_id w) (artworks (snd (deleteArtwork d u p)))) \<and>
   (artwork_findUnique d (parseInt p) = Inr None \<longrightarrow>
      deleteArtwork d u p = (Resp 404 (Error ''Artwork not found''), d)) \<and>
   (artwork_findUnique d (parseInt p) = Inr (Some w) \<longrightarrow> w_userId w \<noteq> u \<longrightarrow>
      deleteArtwork d u p =
        (Resp 403 (Error ''You can only delete your own artworks''), d))"
proof (intro conjI impI)
  assume "artwork_findUnique d (parseInt p) = Inr None"
  then show "deleteArtwork d u p = (Resp 404 (Error ''Artwork not found''), d)"
    by (simp add: deleteArtwork_def)
next
  assume "artwork_findUnique d (parseInt p) = Inr (Some w)" and "w_userId w \<noteq> u"
  then show "deleteArtwork d u p =
        (Resp 403 (Error ''You can only delete your own artworks''), d)"
    by (simp add: deleteArtwork_def)
next
  assume found: "artwork_findUnique d (parseInt p) = Inr (Some w)" and own: "w_userId w = u"
  from found have p: "parseInt p = Some (w_id w)" and n: "int4 (w_id w)"
    and w: "w \<in> set (artworks d)"
    by (simp_all add: artwork_findUnique_SomeD)
  from w have there: "list_ex (\<lambda>x. w_id x = w_id w) (artworks d)"
    by (auto simp: list_ex_iff)
  from found own there show del: "deleteArtwork d u p =
        (Resp 200 (Message ''Artwork deleted successfully''),
         d\<lparr>likes := filter (\<lambda>l. l_artworkId l \<noteq> w_id w) (likes d),
           comments := filter (\<lambda>c. c_artworkId c \<noteq> w_id w) (comments d),
           artworks := filter (\<lambda>x. w_id x \<noteq> w_id w) (artworks d)\<rparr>)"
    by (simp add: deleteArtwork_def p like_deleteMany_def comment_deleteMany_def
        artwork_delete_def prismaInt_Some n)
  from there show "artwork_delete
         (d\<lparr>likes := filter (\<lambda>l. l_artworkId l \<noteq> w_id w) (likes d),
           comments := filter (\<lambda>c. c_artworkId c \<noteq> w_id w) (comments d)\<rparr>) (parseInt p) =
        Inr (snd (deleteArtwork d u p))"
    by (simp add: del p artwork_delete_def prismaInt_Some n)
  show "\<not> list_ex (\<lambda>l. l_artworkId l = w_id w) (likes (snd (deleteArtwork d u p)))"
    by (simp add: del list_ex_iff)
  show "\<not> list_ex (\<lambda>c. c_artworkId c = w_id w) (comments (snd (deleteArtwork d u p)))"
    by (simp add: del list_ex_iff)
  show "\<not> list_ex (\<lambda>x. w_id x = w_id w) (artworks (snd (deleteArtwork d u p)))"
    by (simp add: del list_ex_iff)
qed

text \<open>
  Artwork 5 of user 9 carries two likes and one comment, artwork 6 one like. User 9 deletes
  artwork 5; user 1 may not; artwork 7 does not exist.
\<close>

theorem deleteArtwork_outcomes_witness:
  "deleteArtwork
      (emptyDb\<lparr>artworks := [\<lparr>w_id = 5, w_userId = 9\<rparr>, \<lparr>w_id = 6, w_userId = 9\<rparr>],
         likes := [\<lparr>l_id = 1, l_userId = 1, l_artworkId = 5\<rparr>,
                   \<lparr>l_id = 2, l_userId = 1, l_artworkId = 6\<rparr>,
                   \<lparr>l_id = 3, l_userId = 2, l_artworkId = 5\<rparr>],
         comments := [\<lparr>c_id = 1, c_content = ''calm'', c_userId = 2, c_artworkId = 5\<rparr>]\<rparr>)
      9 ''5'' =
     (Resp 200 (Message ''Artwork deleted successfully''),
      emptyDb\<lparr>artworks := [\<lparr>w_id = 6, w_userId = 9\<rparr>],
         likes := [\<lparr>l_id = 2, l_userId = 1, l_artworkId = 6\<rparr>],
         comments := []\<rparr>) \<and>
   fst (deleteArtwork
      (emptyDb\<lparr>artworks := [\<lparr>w_id = 5, w_userId = 9\<rparr>, \<lparr>w_id = 6, w_userId = 9\<rparr>],
         likes := [\<lparr>l_id = 1, l_userId = 1, l_artworkId = 5\<rparr>,
                   \<lparr>l_id = 2, l_userId = 1, l_artworkId = 6\<rparr>,
                   \<lparr>l_id = 3, l_userId = 2, l_artworkId = 5\<rparr>],
         comments := [\<lparr>c_id = 1, c_content = ''calm'', c_userId = 2, c_artworkId = 5\<rparr>]\<rparr>)
      1 ''5'') = Resp 403 (Error ''You can only delete your own artworks'') \<and>
   fst (deleteArtwork
      (emptyDb\<lparr>artworks := [\<lparr>w_id = 5, w_userId = 9\<rparr>, \<lparr>w_id = 6, w_userId = 9\<rparr>],
         likes := [\<lparr>l_id = 1, l_userId = 1, l_artworkId = 5\<rparr>,
                   \<lparr>l_id = 2, l_userId = 1, l_artworkId = 6\<rparr>,
                   \<lparr>l_id = 3, l_userId = 2, l_artworkId = 5\<rparr>],
         comments := [\<lparr>c_id = 1, c_content = ''calm'', c_userId = 2, c_artworkId = 5\<rparr>]\<rparr>)
      9 ''7'') = Resp 404 (Error ''Artwork not found'')"
proof -
  let ?W = "\<lparr>w_id = 5, w_userId = 9\<rparr>"
  let ?D = "emptyDb\<lparr>artworks := [?W, \<lparr>w_id = 6, w_userId = 9\<rparr>],
         likes := [\<lparr>l_id = 1, l_userId = 1, l_artworkId = 5\<rparr>,
                   \<lparr>l_id = 2, l_userId = 1, l_artworkId = 6\<rparr>,
                   \<lparr>l_id = 3, l_userId = 2, l_artworkId = 5\<rparr>],
         comments := [\<lparr>c_id = 1, c_content = ''calm'', c_userId = 2, c_artworkId = 5\<rparr>]\<rparr>"
  have found: "artwork_findUnique ?D (parseInt ''5'') = Inr (Some ?W)"
    by (simp add: eval_defs)
  have missing: "artwork_findUnique ?D (parseInt ''7'') = Inr None"
    by (simp add: eval_defs)
  from deleteArtwork_outcomes [of ?D "''5''" ?W 9] found
  have owner: "deleteArtwork ?D 9 ''5'' =
     (Resp 200 (Message ''Artwork deleted successfully''),
      emptyDb\<lparr>artworks := [\<lparr>w_id = 6, w_userId = 9\<rparr>],
         likes := [\<lparr>l_id = 2, l_userId = 1, l_artworkId = 6\<rparr>],
         comments := []\<rparr>)"
    by (simp add: emptyDb_def)
  from deleteArtwork_outcomes [of ?D "''5''" ?W 1] found
  have other: "fst (deleteArtwork ?D 1 ''5'') =
      Resp 403 (Error ''You can only delete your own artworks'')"
    by simp
  from deleteArtwork_outcomes [of ?D "''7''" _ 9] missing
  have "fst (deleteArtwork ?D 9 ''7'') = Resp 404 (Error ''Artwork not found'')"
    by simp
  with owner other show ?thesis by simp
qed

end
